theory Spec2Isabelle
  imports Main
begin

section \<open>JavaScript strings and buffers\<close>

text \<open>
  A JavaScript string is a sequence of UTF-16 code units and a Node \<open>Buffer\<close> is a
  sequence of bytes; both are lists of naturals here. \<open>str\<close> turns an ASCII literal
  of the source into its code units.
\<close>

type_synonym jsstring = "nat list"

type_synonym bytes = "nat list"

definition str :: "string \<Rightarrow> jsstring" where
  "str s = map of_char s"

definition nl :: nat where
  "nl = 10"

text \<open>\<open>String.prototype.trim\<close> strips the WhiteSpace and LineTerminator code units.\<close>

definition is_ws :: "nat \<Rightarrow> bool" where
  "is_ws c = (c \<in> set [9, 10, 11, 12, 13, 32, 160, 0x1680, 0x2028, 0x2029, 0x202F, 0x205F, 0x3000, 0xFEFF]
              \<or> (0x2000 \<le> c \<and> c \<le> 0x200A))"

definition trim :: "jsstring \<Rightarrow> jsstring" where
  "trim s = rev (dropWhile is_ws (rev (dropWhile is_ws s)))"

definition startsWith :: "jsstring \<Rightarrow> jsstring \<Rightarrow> bool" where
  "startsWith s p = (take (length p) s = p)"

fun str_includes :: "jsstring \<Rightarrow> jsstring \<Rightarrow> bool" where
  "str_includes [] p = (p = [])"
| "str_includes (c # cs) p = (startsWith (c # cs) p \<or> str_includes cs p)"

text \<open>\<open>s.split(sep)\<close> for a separator of one code unit: never the empty list.\<close>

fun split :: "nat \<Rightarrow> jsstring \<Rightarrow> jsstring list" where
  "split sep [] = [[]]"
| "split sep (c # cs) =
     (if c = sep then [] # split sep cs
      else (case split sep cs of [] \<Rightarrow> [[c]] | l # ls \<Rightarrow> (c # l) # ls))"

text \<open>The decimal rendering of a non-negative integer, as a template literal prints it.\<close>

fun dec :: "nat \<Rightarrow> jsstring" where
  "dec n = (if n < 10 then [48 + n] else dec (n div 10) @ [48 + n mod 10])"

definition dec_int :: "int \<Rightarrow> jsstring" where
  "dec_int i = (if i < 0 then 45 # dec (nat (- i)) else dec (nat i))"

text \<open>
  \<open>chunk.toString()\<close> decodes a buffer as UTF-8 on its own: a byte that cannot start or
  continue a sequence, and a sequence cut short by the end of the buffer, each become
  U+FFFD. The decoder is the usual automaton: bytes still expected, the code point so
  far, and the range allowed for the next byte.
\<close>

datatype utf8_state = Idle | Pending nat nat nat nat

definition utf8_start :: "nat \<Rightarrow> nat list \<times> utf8_state" where
  "utf8_start b =
     (if b < 0x80 then ([b], Idle)
      else if 0xC2 \<le> b \<and> b \<le> 0xDF then ([], Pending 1 (b mod 32) 0x80 0xBF)
      else if 0xE0 \<le> b \<and> b \<le> 0xEF then
        ([], Pending 2 (b mod 16) (if b = 0xE0 then 0xA0 else 0x80) (if b = 0xED then 0x9F else 0xBF))
      else if 0xF0 \<le> b \<and> b \<le> 0xF4 then
        ([], Pending 3 (b mod 8) (if b = 0xF0 then 0x90 else 0x80) (if b = 0xF4 then 0x8F else 0xBF))
      else ([0xFFFD], Idle))"

fun utf8_step :: "utf8_state \<Rightarrow> nat \<Rightarrow> nat list \<times> utf8_state" where
  "utf8_step Idle b = utf8_start b"
| "utf8_step (Pending n cp lo hi) b =
     (if lo \<le> b \<and> b \<le> hi then
        (if n \<le> 1 then ([cp * 64 + b mod 64], Idle)
         else ([], Pending (n - 1) (cp * 64 + b mod 64) 0x80 0xBF))
      else (case utf8_start b of (out, st) \<Rightarrow> (0xFFFD # out, st)))"

fun utf8_run :: "utf8_state \<Rightarrow> bytes \<Rightarrow> nat list" where
  "utf8_run Idle [] = []"
| "utf8_run (Pending n cp lo hi) [] = [0xFFFD]"
| "utf8_run st (b # bs) = (case utf8_step st b of (out, st') \<Rightarrow> out @ utf8_run st' bs)"

definition utf16 :: "nat \<Rightarrow> jsstring" where
  "utf16 cp =
     (if cp < 0x10000 then [cp]
      else [0xD800 + (cp - 0x10000) div 1024, 0xDC00 + (cp - 0x10000) mod 1024])"

definition buffer_toString :: "bytes \<Rightarrow> jsstring" where
  "buffer_toString bs = concat (map utf16 (utf8_run Idle bs))"

section \<open>JavaScript values\<close>

text \<open>
  The values that \<open>JSON.parse\<close> yields, and \<open>undefined\<close>. Numbers are the integers
  (token counts, timestamps). An object is the list of its own properties; a read takes
  the first binding of a key. Members inherited from the built-in prototypes
  (\<open>toString\<close>, \<open>constructor\<close>, ...) are outside the model.
\<close>

datatype jsval =
    JUndefined
  | JNull
  | JBool bool
  | JNum int
  | JStr jsstring
  | JArr "jsval list"
  | JObj "(jsstring \<times> jsval) list"

datatype error =
    TypeError
  | SyntaxError
  | InvalidBase64
  | UploadFailed nat jsstring jsstring
  | FetchFailed

definition bnd :: "error + 'a \<Rightarrow> ('a \<Rightarrow> error + 'b) \<Rightarrow> error + 'b" where
  "bnd m f = (case m of Inl e \<Rightarrow> Inl e | Inr x \<Rightarrow> f x)"

fun truthy :: "jsval \<Rightarrow> bool" where
  "truthy JUndefined = False"
| "truthy JNull = False"
| "truthy (JBool b) = b"
| "truthy (JNum n) = (n \<noteq> 0)"
| "truthy (JStr s) = (s \<noteq> [])"
| "truthy (JArr xs) = True"
| "truthy (JObj kvs) = True"

text \<open>A canonical array index: the decimal numeral of a natural, without leading zeros.\<close>

definition index_of :: "jsstring \<Rightarrow> nat option" where
  "index_of k =
     (if k \<noteq> [] \<and> (\<forall>c \<in> set k. 48 \<le> c \<and> c \<le> 57) \<and> (hd k \<noteq> 48 \<or> length k = 1)
      then Some (foldl (\<lambda>a c. a * 10 + (c - 48)) 0 k) else None)"

text \<open>
  \<open>v[k]\<close> and \<open>v.k\<close>: a TypeError on \<open>undefined\<close> and \<open>null\<close>, the own property of
  an object, the length and the elements of an array or a string, \<open>undefined\<close>
  otherwise.
\<close>

fun js_get :: "jsval \<Rightarrow> jsstring \<Rightarrow> error + jsval" where
  "js_get JUndefined k = Inl TypeError"
| "js_get JNull k = Inl TypeError"
| "js_get (JObj kvs) k = Inr (case map_of kvs k of None \<Rightarrow> JUndefined | Some v \<Rightarrow> v)"
| "js_get (JArr xs) k =
     Inr (if k = str ''length'' then JNum (int (length xs))
          else (case index_of k of None \<Rightarrow> JUndefined
                | Some i \<Rightarrow> if i < length xs then xs ! i else JUndefined))"
| "js_get (JStr s) k =
     Inr (if k = str ''length'' then JNum (int (length s))
          else (case index_of k of None \<Rightarrow> JUndefined
                | Some i \<Rightarrow> if i < length s then JStr [s ! i] else JUndefined))"
| "js_get (JBool b) k = Inr JUndefined"
| "js_get (JNum n) k = Inr JUndefined"

text \<open>\<open>String(v)\<close>, which is also what \<open>v + "\n"\<close> and a template literal apply.\<close>

fun join :: "jsstring \<Rightarrow> jsstring list \<Rightarrow> jsstring" where
  "join sep [] = []"
| "join sep [x] = x"
| "join sep (x # y # ys) = x @ sep @ join sep (y # ys)"

fun toString :: "jsval \<Rightarrow> jsstring" where
  "toString JUndefined = str ''undefined''"
| "toString JNull = str ''null''"
| "toString (JBool b) = (if b then str ''true'' else str ''false'')"
| "toString (JNum n) = dec_int n"
| "toString (JStr s) = s"
| "toString (JArr xs) =
     join (str '','') (map (\<lambda>x. if x = JUndefined \<or> x = JNull then [] else toString x) xs)"
| "toString (JObj kvs) = str ''[object Object]''"

section \<open>Configuration, collaborators and the client response\<close>

text \<open>
  The configuration object. An optional field is \<open>None\<close> when undefined; the source
  tests such a field by truthiness, so a field set to the empty string counts as not set.
\<close>

record config =
  DIFY_API_URL :: jsstring
  API_KEY :: jsstring
  USER :: "jsstring option"
  SYSTEM_INPUT_VARIABLE :: "jsstring option"
  INPUT_VARIABLE :: "jsstring option"
  OUTPUT_VARIABLE :: "jsstring option"

definition is_set :: "jsstring option \<Rightarrow> bool" where
  "is_set v = (case v of None \<Rightarrow> False | Some s \<Rightarrow> s \<noteq> [])"

text \<open>
  The multipart form that the uploader posts, the JSON body of the workflow call (its
  \<open>inputs\<close> object as a map from names to values), and an answer of the backend.
\<close>

type_synonym inputs = "jsstring \<rightharpoonup> jsval"

record run_body =
  body_inputs :: inputs
  body_response_mode :: jsstring
  body_user :: jsval
  body_files :: "jsval list"

record upload_form =
  form_filename :: jsstring
  form_contentType :: jsstring
  form_file :: bytes
  form_user :: jsval

record http_reply =
  reply_status :: nat
  reply_statusText :: jsstring
  reply_contentType :: "jsstring option"
  reply_chunks :: "bytes list"

definition reply_ok :: "http_reply \<Rightarrow> bool" where
  "reply_ok r = (200 \<le> reply_status r \<and> reply_status r < 300)"

definition reply_text :: "http_reply \<Rightarrow> jsstring" where
  "reply_text r = buffer_toString (concat (reply_chunks r))"

text \<open>
  What the handler takes from outside this file: the JSON built-ins, the clock, the
  helpers of \<open>utils.js\<close>, base64 decoding, and the two calls to the backend. The
  upload's answer may depend on how many uploads came before it.
\<close>

record host =
  json_parse :: "jsstring \<Rightarrow> jsval option"
  json_stringify :: "jsval \<Rightarrow> jsstring"
  json_stringify_indent :: "jsval \<Rightarrow> jsstring"
  date_now :: nat
  generateId :: jsstring
  getFileExtension :: "jsstring \<Rightarrow> jsval"
  getFileType :: "jsval \<Rightarrow> jsval"
  base64_decode :: "jsstring \<Rightarrow> bytes"
  post_upload :: "nat \<Rightarrow> upload_form \<Rightarrow> error + http_reply"
  post_run :: "run_body \<Rightarrow> error + http_reply"
  engine_message :: "error \<Rightarrow> jsstring"

text \<open>
  The Express response, as the log of what the handler does to it: the status code, the
  Content-Type it sets, every body the handler writes (in call order, whether or not
  \<open>end\<close> was called before), and whether \<open>end\<close> was called. Node does not deliver a
  write that follows \<open>end\<close>; it raises ERR_STREAM_WRITE_AFTER_END.
\<close>

record response =
  statusCode :: nat
  contentType :: "jsstring option"
  writes :: "jsstring list"
  ended :: bool

definition res0 :: response where
  "res0 = \<lparr>statusCode = 200, contentType = None, writes = [], ended = False\<rparr>"

definition res_status :: "response \<Rightarrow> nat \<Rightarrow> response" where
  "res_status r n = r\<lparr>statusCode := n\<rparr>"

definition res_setHeader :: "response \<Rightarrow> jsstring \<Rightarrow> response" where
  "res_setHeader r v = r\<lparr>contentType := Some v\<rparr>"

definition res_write :: "response \<Rightarrow> jsstring \<Rightarrow> response" where
  "res_write r s = r\<lparr>writes := writes r @ [s]\<rparr>"

definition res_end :: "response \<Rightarrow> response" where
  "res_end r = r\<lparr>ended := True\<rparr>"

definition res_send :: "response \<Rightarrow> jsstring \<Rightarrow> response" where
  "res_send r body = res_end (res_write r body)"

definition res_json :: "host \<Rightarrow> response \<Rightarrow> jsval \<Rightarrow> response" where
  "res_json h r v =
     res_send (if contentType r = None then res_setHeader r (str ''application/json'') else r)
       (json_stringify h v)"

section \<open>The streaming translator\<close>

text \<open>
  Lines 425 to 439 of the handler: a complete line yields a frame when, trimmed, it
  starts with \<open>data:\<close>, the rest, trimmed, starts with an opening brace, and
  \<open>JSON.parse\<close> accepts it. Otherwise the loop goes on to the next line.
\<close>

definition frame_of :: "host \<Rightarrow> jsstring \<Rightarrow> jsval option" where
  "frame_of h line0 =
     (let line = trim line0 in
      if \<not> startsWith line (str ''data:'') then None
      else (let payload = trim (drop 5 line) in
            if startsWith payload (str ''{'') then json_parse h payload else None))"

definition done_line :: jsstring where
  "done_line = str ''data: [DONE]'' @ [nl, nl]"

text \<open>The chunk written for a \<open>workflow_finished\<close> frame (lines 454 to 483).\<close>

definition select_result :: "config \<Rightarrow> jsval \<Rightarrow> error + jsval" where
  "select_result cfg outputs =
     (if is_set (OUTPUT_VARIABLE cfg) then js_get outputs (the (OUTPUT_VARIABLE cfg))
      else Inr outputs)"

definition completion_chunk :: "host \<Rightarrow> jsval \<Rightarrow> jsval \<Rightarrow> jsval \<Rightarrow> jsval" where
  "completion_chunk h chunkCreated model result =
     JObj [(str ''id'', JStr (str ''chatcmpl-'' @ dec (date_now h))),
           (str ''object'', JStr (str ''chat.completion.chunk'')),
           (str ''created'', chunkCreated),
           (str ''model'', model),
           (str ''choices'',
             JArr [JObj [(str ''index'', JNum 0),
                         (str ''delta'', JObj [(str ''content'', result)]),
                         (str ''finish_reason'', JStr (str ''stop''))]])]"

definition finished_line :: "host \<Rightarrow> config \<Rightarrow> jsval \<Rightarrow> jsval \<Rightarrow> error + jsstring" where
  "finished_line h cfg data chunkObj =
     bnd (js_get chunkObj (str ''data'')) (\<lambda>d.
     bnd (js_get d (str ''outputs'')) (\<lambda>outputs.
     bnd (select_result cfg outputs) (\<lambda>result.
     bnd (js_get chunkObj (str ''created_at'')) (\<lambda>chunkCreated.
     bnd (js_get data (str ''model'')) (\<lambda>model.
       Inr (str ''data: '' @ json_stringify h (completion_chunk h chunkCreated model result)
            @ [nl, nl]))))))"

text \<open>The payload written for an \<open>error\<close> frame (lines 492 to 496).\<close>

definition error_line :: "host \<Rightarrow> jsval \<Rightarrow> error + jsstring" where
  "error_line h chunkObj =
     bnd (js_get chunkObj (str ''message'')) (\<lambda>message.
       Inr (str ''data: '' @ json_stringify h (JObj [(str ''error'', message)]) @ [nl, nl]))"

text \<open>
  The dispatch on \<open>chunkObj.event\<close> (lines 447 to 504). The state is the latch
  \<open>isResponseEnded\<close> and the response. An exception leaves the state as it was before
  the frame: every property read of a branch comes before its first write.
\<close>

definition on_frame ::
  "host \<Rightarrow> config \<Rightarrow> jsval \<Rightarrow> bool \<times> response \<Rightarrow> jsval \<Rightarrow> error + bool \<times> response" where
  "on_frame h cfg data s chunkObj =
     (case s of (isResponseEnded, res) \<Rightarrow>
      bnd (js_get chunkObj (str ''event'')) (\<lambda>event.
        if event = JStr (str ''workflow_started'') then Inr s
        else if event = JStr (str ''node_started'') then Inr s
        else if event = JStr (str ''node_finished'') then Inr s
        else if event = JStr (str ''workflow_finished'') then
          bnd (finished_line h cfg data chunkObj) (\<lambda>line.
            if \<not> isResponseEnded
            then Inr (True, res_end (res_write (res_write res line) done_line))
            else Inr s)
        else if event = JStr (str ''ping'') then Inr s
        else if event = JStr (str ''error'') then
          bnd (error_line h chunkObj) (\<lambda>line.
            let res1 = res_write (res_status res 500) line;
                res2 = (if \<not> isResponseEnded then res_write res1 done_line else res1)
            in Inr (True, res_end res2))
        else Inr s))"

definition process_line ::
  "host \<Rightarrow> config \<Rightarrow> jsval \<Rightarrow> bool \<times> response \<Rightarrow> jsstring \<Rightarrow> error + bool \<times> response" where
  "process_line h cfg data s line =
     (case frame_of h line of None \<Rightarrow> Inr s | Some chunkObj \<Rightarrow> on_frame h cfg data s chunkObj)"

text \<open>
  The loop over the complete lines of one chunk. An exception escapes the listener;
  the second component then holds it, beside the state at the throw.
\<close>

fun process_lines ::
  "host \<Rightarrow> config \<Rightarrow> jsval \<Rightarrow> bool \<times> response \<Rightarrow> jsstring list
   \<Rightarrow> (bool \<times> response) \<times> error option" where
  "process_lines h cfg data s [] = (s, None)"
| "process_lines h cfg data s (l # ls) =
     (case process_line h cfg data s l of
        Inl e \<Rightarrow> (s, Some e)
      | Inr s' \<Rightarrow> process_lines h cfg data s' ls)"

text \<open>
  The \<open>data\<close> listener (lines 420 to 508): the state adds the buffer. When an exception
  escapes, the last assignment to the buffer is not reached.
\<close>

record stream_state =
  buffer :: jsstring
  latch :: "bool \<times> response"

definition on_data ::
  "host \<Rightarrow> config \<Rightarrow> jsval \<Rightarrow> stream_state \<Rightarrow> bytes \<Rightarrow> stream_state \<times> error option" where
  "on_data h cfg data st chunk =
     (let buf = buffer st @ buffer_toString chunk;
          lines = split nl buf
      in case process_lines h cfg data (latch st) (butlast lines) of
           (s, None) \<Rightarrow> (\<lparr>buffer = last lines, latch = s\<rparr>, None)
         | (s, Some e) \<Rightarrow> (\<lparr>buffer = buf, latch = s\<rparr>, Some e))"

text \<open>
  The chunks of the backend's body, in order. An exception that escapes a listener is
  uncaught and ends the process: the chunks after it are not handled.
\<close>

fun run_stream ::
  "host \<Rightarrow> config \<Rightarrow> jsval \<Rightarrow> stream_state \<Rightarrow> bytes list \<Rightarrow> stream_state \<times> error option" where
  "run_stream h cfg data st [] = (st, None)"
| "run_stream h cfg data st (c # cs) =
     (case on_data h cfg data st c of
        (st', None) \<Rightarrow> run_stream h cfg data st' cs
      | (st', Some e) \<Rightarrow> (st', Some e))"

definition stream_response ::
  "host \<Rightarrow> config \<Rightarrow> jsval \<Rightarrow> response \<Rightarrow> bytes list \<Rightarrow> response \<times> error option" where
  "stream_response h cfg data res chunks =
     (case run_stream h cfg data
             \<lparr>buffer = [], latch = (False, res_setHeader res (str ''text/event-stream''))\<rparr> chunks of
        (st, exn) \<Rightarrow> (snd (latch st), exn))"

section \<open>The uploader\<close>

text \<open>
  The pattern \<open>/^data:(.+);base64,(.+)$/\<close>. A dot matches any code unit but a line
  terminator, and both groups are greedy: the first group runs up to the last
  \<open>;base64,\<close> that leaves a non-empty rest.
\<close>

definition line_terminator :: "nat \<Rightarrow> bool" where
  "line_terminator c = (c \<in> set [10, 13, 0x2028, 0x2029])"

fun last_split :: "jsstring \<Rightarrow> jsstring \<Rightarrow> (jsstring \<times> jsstring) option" where
  "last_split m [] = None"
| "last_split m (c # cs) =
     (case last_split m cs of
        Some (a, b) \<Rightarrow> Some (c # a, b)
      | None \<Rightarrow>
          if startsWith cs m \<and> length m < length cs then Some ([c], drop (length m) cs)
          else None)"

definition match_data_url :: "jsstring \<Rightarrow> (jsstring \<times> jsstring) option" where
  "match_data_url s =
     (if startsWith s (str ''data:'') \<and> (\<forall>c \<in> set (drop 5 s). \<not> line_terminator c)
      then last_split (str '';base64,'') (drop 5 s) else None)"

text \<open>The requests that reach the backend: the forms posted to \<open>/files/upload\<close> and the
  bodies posted to \<open>/workflows/run\<close>, in order.\<close>

record world =
  posted :: "upload_form list"
  sent :: "run_body list"

definition world0 :: world where
  "world0 = \<lparr>posted = [], sent = []\<rparr>"

text \<open>
  \<open>uploadFileToDify\<close> (lines 53 to 147). \<open>form.append\<close> of a Buffer does not throw, so
  the fallback of lines 89 to 98 is not a branch.
\<close>

definition upload_form_of :: "host \<Rightarrow> jsval \<Rightarrow> jsstring \<times> jsstring \<Rightarrow> upload_form" where
  "upload_form_of h userId m =
     (case m of (matches1, base64String) \<Rightarrow>
      let fileData = base64_decode h base64String;
          contentType = (if matches1 = str ''image/jpg'' then str ''image/jpeg'' else matches1);
          fileExtension = (case split 47 contentType of _ # e # _ \<Rightarrow> JStr e | _ \<Rightarrow> JUndefined);
          filename = str ''file.'' @ toString fileExtension
      in \<lparr>form_filename = filename, form_contentType = contentType,
          form_file = fileData, form_user = userId\<rparr>)"

definition uploadFileToDify ::
  "host \<Rightarrow> config \<Rightarrow> jsval \<Rightarrow> jsstring \<Rightarrow> world \<Rightarrow> (error + jsval) \<times> world" where
  "uploadFileToDify h cfg userId base64Data w =
     (case match_data_url base64Data of
        None \<Rightarrow> (Inl InvalidBase64, w)
      | Some m \<Rightarrow>
          let form = upload_form_of h userId m;
              w' = w\<lparr>posted := posted w @ [form]\<rparr>
          in case post_upload h (length (posted w)) form of
               Inl e \<Rightarrow> (Inl e, w')
             | Inr response \<Rightarrow>
                 if \<not> reply_ok response
                 then (Inl (UploadFailed (reply_status response) (reply_statusText response)
                              (reply_text response)), w')
                 else (case json_parse h (reply_text response) of
                         None \<Rightarrow> (Inl SyntaxError, w')
                       | Some result \<Rightarrow> (js_get result (str ''id''), w')))"

section \<open>The request: images, text, inputs\<close>

text \<open>Lines 195 to 198 and 210 to 213: \<open>file_input\<close> is made an array, then pushed to.\<close>

definition push_file_input :: "inputs \<Rightarrow> jsval \<Rightarrow> error + inputs" where
  "push_file_input inputs fileInput =
     (let cur = (case inputs (str ''file_input'') of None \<Rightarrow> JUndefined | Some v \<Rightarrow> v);
          arr = (if \<not> truthy cur then JArr [] else cur)
      in case arr of
           JArr xs \<Rightarrow> Inr (inputs(str ''file_input'' \<mapsto> JArr (xs @ [fileInput])))
         | _ \<Rightarrow> Inl TypeError)"

definition local_file :: "jsval \<Rightarrow> jsval \<Rightarrow> jsval" where
  "local_file fileId fileType =
     JObj [(str ''transfer_method'', JStr (str ''local_file'')),
           (str ''upload_file_id'', fileId),
           (str ''type'', fileType)]"

definition remote_url :: "jsstring \<Rightarrow> jsval \<Rightarrow> jsval" where
  "remote_url imageUrl fileType =
     JObj [(str ''transfer_method'', JStr (str ''remote_url'')),
           (str ''url'', JStr imageUrl),
           (str ''type'', fileType)]"

text \<open>
  The test of line 174: the url of a content part that is an image, when it is truthy.
  Reading \<open>type\<close> off \<open>null\<close> throws; \<open>startsWith\<close> exists on strings only.
\<close>

definition image_url_of :: "jsval \<Rightarrow> error + jsstring option" where
  "image_url_of content =
     bnd (js_get content (str ''type'')) (\<lambda>ty.
       if ty \<noteq> JStr (str ''image_url'') then Inr None
       else bnd (js_get content (str ''image_url'')) (\<lambda>iu.
         if \<not> truthy iu then Inr None
         else bnd (js_get iu (str ''url'')) (\<lambda>url.
           if \<not> truthy url then Inr None
           else (case url of JStr imageUrl \<Rightarrow> Inr (Some imageUrl) | _ \<Rightarrow> Inl TypeError))))"

definition scan_part ::
  "host \<Rightarrow> config \<Rightarrow> jsval \<Rightarrow> jsval \<Rightarrow> inputs \<Rightarrow> world \<Rightarrow> (error + inputs) \<times> world" where
  "scan_part h cfg userId content inputs w =
     (case image_url_of content of
        Inl e \<Rightarrow> (Inl e, w)
      | Inr None \<Rightarrow> (Inr inputs, w)
      | Inr (Some imageUrl) \<Rightarrow>
          let fileType = getFileType h (getFileExtension h imageUrl) in
          if startsWith imageUrl (str ''data:'') then
            (case uploadFileToDify h cfg userId imageUrl w of
               (Inl e, w') \<Rightarrow> (Inl e, w')
             | (Inr fileId, w') \<Rightarrow> (push_file_input inputs (local_file fileId fileType), w'))
          else (push_file_input inputs (remote_url imageUrl fileType), w))"

fun scan_parts ::
  "host \<Rightarrow> config \<Rightarrow> jsval \<Rightarrow> jsval list \<Rightarrow> inputs \<Rightarrow> world \<Rightarrow> (error + inputs) \<times> world" where
  "scan_parts h cfg userId [] inputs w = (Inr inputs, w)"
| "scan_parts h cfg userId (c # cs) inputs w =
     (case scan_part h cfg userId c inputs w of
        (Inl e, w') \<Rightarrow> (Inl e, w')
      | (Inr inputs', w') \<Rightarrow> scan_parts h cfg userId cs inputs' w')"

definition scan_message ::
  "host \<Rightarrow> config \<Rightarrow> jsval \<Rightarrow> jsval \<Rightarrow> inputs \<Rightarrow> world \<Rightarrow> (error + inputs) \<times> world" where
  "scan_message h cfg userId message inputs w =
     (case js_get message (str ''content'') of
        Inl e \<Rightarrow> (Inl e, w)
      | Inr (JArr parts) \<Rightarrow> scan_parts h cfg userId parts inputs w
      | Inr _ \<Rightarrow> (Inr inputs, w))"

fun scan_messages ::
  "host \<Rightarrow> config \<Rightarrow> jsval \<Rightarrow> jsval list \<Rightarrow> inputs \<Rightarrow> world \<Rightarrow> (error + inputs) \<times> world" where
  "scan_messages h cfg userId [] inputs w = (Inr inputs, w)"
| "scan_messages h cfg userId (m # ms) inputs w =
     (case scan_message h cfg userId m inputs w of
        (Inl e, w') \<Rightarrow> (Inl e, w')
      | (Inr inputs', w') \<Rightarrow> scan_messages h cfg userId ms inputs' w')"

text \<open>The system prompt (lines 225 to 239).\<close>

definition system_part :: "jsstring \<Rightarrow> jsval \<Rightarrow> error + jsstring" where
  "system_part systemPrompt content =
     (case content of
        JStr s \<Rightarrow> Inr (systemPrompt @ s @ [nl])
      | _ \<Rightarrow> bnd (js_get content (str ''type'')) (\<lambda>ty.
               if ty = JStr (str ''text'')
               then bnd (js_get content (str ''text'')) (\<lambda>text.
                      Inr (systemPrompt @ toString text @ [nl]))
               else Inr systemPrompt))"

fun system_parts :: "jsstring \<Rightarrow> jsval list \<Rightarrow> error + jsstring" where
  "system_parts systemPrompt [] = Inr systemPrompt"
| "system_parts systemPrompt (c # cs) =
     bnd (system_part systemPrompt c) (\<lambda>sp. system_parts sp cs)"

definition system_message :: "jsstring \<Rightarrow> jsval \<Rightarrow> error + jsstring" where
  "system_message systemPrompt message =
     bnd (js_get message (str ''role'')) (\<lambda>role.
       if role = JStr (str ''system'') then
         bnd (js_get message (str ''content'')) (\<lambda>content.
           case content of
             JArr parts \<Rightarrow> system_parts systemPrompt parts
           | _ \<Rightarrow> Inr (systemPrompt @ toString content @ [nl]))
       else Inr systemPrompt)"

fun system_messages :: "jsstring \<Rightarrow> jsval list \<Rightarrow> error + jsstring" where
  "system_messages systemPrompt [] = Inr systemPrompt"
| "system_messages systemPrompt (m # ms) =
     bnd (system_message systemPrompt m) (\<lambda>sp. system_messages sp ms)"

text \<open>The user query (lines 247 to 295). No read of this loop can throw on a part.\<close>

definition user_part :: "jsstring \<Rightarrow> jsval \<Rightarrow> jsstring" where
  "user_part userQuery content =
     (case content of
        JStr s \<Rightarrow> userQuery @ s @ [nl]
      | _ \<Rightarrow> if truthy content \<and> js_get content (str ''type'') = Inr (JStr (str ''text''))
             then (case js_get content (str ''text'') of
                     Inr (JStr t) \<Rightarrow> userQuery @ t @ [nl]
                   | _ \<Rightarrow> userQuery)
             else userQuery)"

definition user_message :: "jsstring \<Rightarrow> jsval \<Rightarrow> error + jsstring" where
  "user_message userQuery message =
     bnd (js_get message (str ''role'')) (\<lambda>role.
       if role = JStr (str ''user'') then
         bnd (js_get message (str ''content'')) (\<lambda>content.
           case content of
             JArr parts \<Rightarrow> Inr (foldl user_part userQuery parts)
           | _ \<Rightarrow> Inr (userQuery @ toString content @ [nl]))
       else Inr userQuery)"

fun user_messages :: "jsstring \<Rightarrow> jsval list \<Rightarrow> error + jsstring" where
  "user_messages userQuery [] = Inr userQuery"
| "user_messages userQuery (m # ms) =
     bnd (user_message userQuery m) (\<lambda>uq. user_messages uq ms)"

text \<open>The input variables (lines 306 to 342), from the two accumulated strings.\<close>

definition input_variable :: "config \<Rightarrow> jsstring" where
  "input_variable cfg =
     (if is_set (INPUT_VARIABLE cfg) then the (INPUT_VARIABLE cfg) else str ''text_input'')"

definition map_inputs :: "config \<Rightarrow> inputs \<Rightarrow> jsstring \<Rightarrow> jsstring \<Rightarrow> inputs" where
  "map_inputs cfg inputs systemPrompt0 userQuery0 =
     (let systemPrompt = trim systemPrompt0;
          userQuery = trim (trim userQuery0);
          inputs1 = (if is_set (SYSTEM_INPUT_VARIABLE cfg) \<and> systemPrompt \<noteq> []
                     then inputs(the (SYSTEM_INPUT_VARIABLE cfg) \<mapsto> JStr systemPrompt)
                     else inputs);
          inputVariable = input_variable cfg;
          inputs2 = inputs1(inputVariable \<mapsto> JStr userQuery)
      in if \<not> is_set (SYSTEM_INPUT_VARIABLE cfg) \<and> systemPrompt \<noteq> []
         then inputs2(inputVariable \<mapsto> JStr (systemPrompt @ [nl, nl] @ userQuery))
         else inputs2)"

text \<open>
  The user identifier (line 166), and the messages as the loops see them: reading
  \<open>length\<close> off \<open>undefined\<close> or \<open>null\<close> throws (line 167); \<open>for ... of\<close> takes an
  array, or a string unit by unit, and throws on anything else.
\<close>

definition user_id :: "config \<Rightarrow> jsval \<Rightarrow> error + jsval" where
  "user_id cfg data =
     (if is_set (USER cfg) then Inr (JStr (the (USER cfg)))
      else bnd (js_get data (str ''user'')) (\<lambda>u.
             Inr (if truthy u then u else JStr (str ''apiuser''))))"

definition messages_of :: "jsval \<Rightarrow> error + jsval list" where
  "messages_of data =
     bnd (js_get data (str ''messages'')) (\<lambda>messages.
       case messages of
         JArr ms \<Rightarrow> Inr ms
       | JStr s \<Rightarrow> Inr (map (\<lambda>c. JStr [c]) s)
       | _ \<Rightarrow> Inl TypeError)"

definition stream_flag :: "jsval \<Rightarrow> error + jsval" where
  "stream_flag data =
     bnd (js_get data (str ''stream'')) (\<lambda>s. Inr (if s \<noteq> JUndefined then s else JBool False))"

text \<open>Lines 153 to 359: from the request body to the body for \<open>/workflows/run\<close>,
  with the \<open>stream\<close> flag.\<close>

definition prepare ::
  "host \<Rightarrow> config \<Rightarrow> jsval \<Rightarrow> world \<Rightarrow> (error + run_body \<times> jsval) \<times> world" where
  "prepare h cfg data w =
     (case bnd (messages_of data) (\<lambda>messages.
           bnd (user_id cfg data) (\<lambda>userId. Inr (messages, userId))) of
        Inl e \<Rightarrow> (Inl e, w)
      | Inr (messages, userId) \<Rightarrow>
          (case scan_messages h cfg userId messages Map.empty w of
             (Inl e, w') \<Rightarrow> (Inl e, w')
           | (Inr inputs, w') \<Rightarrow>
               (bnd (system_messages [] messages) (\<lambda>systemPrompt.
                bnd (user_messages [] messages) (\<lambda>userQuery.
                bnd (stream_flag data) (\<lambda>stream.
                  Inr (\<lparr>body_inputs = map_inputs cfg inputs systemPrompt userQuery,
                        body_response_mode =
                          (if truthy stream then str ''streaming'' else str ''blocking''),
                        body_user = userId,
                        body_files = []\<rparr>, stream)))), w')))"

section \<open>The answer to the client\<close>

text \<open>The message of an error, which the handler's \<open>catch\<close> sends (line 712).\<close>

definition error_message :: "host \<Rightarrow> error \<Rightarrow> jsstring" where
  "error_message h e =
     (case e of
        InvalidBase64 \<Rightarrow> str ''Invalid base64 data''
      | UploadFailed st tx body \<Rightarrow>
          [0x6587, 0x4EF6, 0x4E0A, 0x4F20, 0x5931, 0x8D25] @ str '': '' @ dec st @ str '' ''
            @ tx @ str '': '' @ body
      | _ \<Rightarrow> engine_message h e)"

definition fail :: "host \<Rightarrow> response \<Rightarrow> error \<Rightarrow> response" where
  "fail h res e = res_json h (res_status res 500) (JObj [(str ''error'', JStr (error_message h e))])"

definition chat_completion :: "host \<Rightarrow> jsval \<Rightarrow> jsval \<Rightarrow> jsval \<Rightarrow> jsval" where
  "chat_completion h model result usageData =
     JObj [(str ''id'', JStr (str ''chatcmpl-'' @ generateId h)),
           (str ''object'', JStr (str ''chat.completion'')),
           (str ''created'', JNum (int (date_now h div 1000))),
           (str ''model'', model),
           (str ''choices'',
             JArr [JObj [(str ''index'', JNum 0),
                         (str ''message'',
                           JObj [(str ''role'', JStr (str ''assistant'')),
                                 (str ''content'', result)]),
                         (str ''logprobs'', JNull),
                         (str ''finish_reason'', JStr (str ''stop''))]]),
           (str ''usage'', usageData),
           (str ''system_fingerprint'', JStr (str ''fp_2f57f81c11''))]"

definition usage_of :: "jsval \<Rightarrow> jsval" where
  "usage_of total_tokens =
     JObj [(str ''total_tokens'', if truthy total_tokens then total_tokens else JNum 110)]"

text \<open>
  The blocking path on a JSON answer (lines 530 to 576): the result and the usage, both
  the empty string unless \<open>data\<close> and \<open>data.outputs\<close> are truthy.
\<close>

definition blocking_result :: "config \<Rightarrow> jsval \<Rightarrow> error + jsval \<times> jsval" where
  "blocking_result cfg jsonData =
     bnd (js_get jsonData (str ''data'')) (\<lambda>d.
       if \<not> truthy d then Inr (JStr [], JStr [])
       else bnd (js_get d (str ''outputs'')) (\<lambda>outputs.
         if \<not> truthy outputs then Inr (JStr [], JStr [])
         else bnd (select_result cfg outputs) (\<lambda>result.
              bnd (js_get d (str ''total_tokens'')) (\<lambda>total_tokens.
                Inr (result, usage_of total_tokens)))))"

definition blocking_json :: "host \<Rightarrow> config \<Rightarrow> jsval \<Rightarrow> jsstring \<Rightarrow> error + jsval" where
  "blocking_json h cfg data text =
     (case json_parse h text of
        None \<Rightarrow> Inl SyntaxError
      | Some jsonData \<Rightarrow>
          bnd (blocking_result cfg jsonData) (\<lambda>(result, usageData).
          bnd (js_get data (str ''model'')) (\<lambda>model.
            Inr (chat_completion h model result usageData))))"

text \<open>
  The blocking path on any other answer (lines 585 to 700): the frames are read as they
  come and the document is sent when the body ends.
\<close>

definition endsWith :: "jsstring \<Rightarrow> jsstring \<Rightarrow> bool" where
  "endsWith s p = (length p \<le> length s \<and> drop (length s - length p) s = p)"

definition collect_frame_of :: "host \<Rightarrow> jsstring \<Rightarrow> jsval option" where
  "collect_frame_of h line0 =
     (let line = trim line0 in
      if line = [] then None
      else (let cleanedLine =
                  trim (if startsWith line (str ''data: '') then drop 6 line else line)
            in if startsWith cleanedLine (str ''{'') \<and> endsWith cleanedLine (str ''}'')
               then json_parse h cleanedLine else None))"

record collected =
  c_result :: jsval
  c_usageData :: jsval
  c_hasError :: bool

text \<open>The second component says whether the loop over the lines breaks.\<close>

definition collect_frame :: "config \<Rightarrow> collected \<Rightarrow> jsval \<Rightarrow> error + collected \<times> bool" where
  "collect_frame cfg st chunkObj =
     bnd (js_get chunkObj (str ''event'')) (\<lambda>event.
       if event = JStr (str ''workflow_finished'') then
         bnd (js_get chunkObj (str ''data'')) (\<lambda>d.
         bnd (js_get d (str ''outputs'')) (\<lambda>outputs.
         bnd (select_result cfg outputs) (\<lambda>result.
         bnd (js_get d (str ''total_tokens'')) (\<lambda>total_tokens.
           Inr (st\<lparr>c_result := result, c_usageData := usage_of total_tokens\<rparr>, False)))))
       else if event = JStr (str ''ping'') then Inr (st, False)
       else if event = JStr (str ''error'') then Inr (st\<lparr>c_hasError := True\<rparr>, True)
       else Inr (st, False))"

fun collect_lines ::
  "host \<Rightarrow> config \<Rightarrow> collected \<Rightarrow> jsstring list \<Rightarrow> collected \<times> error option" where
  "collect_lines h cfg st [] = (st, None)"
| "collect_lines h cfg st (l # ls) =
     (case collect_frame_of h l of
        None \<Rightarrow> collect_lines h cfg st ls
      | Some chunkObj \<Rightarrow>
          (case collect_frame cfg st chunkObj of
             Inl e \<Rightarrow> (st, Some e)
           | Inr (st', stop) \<Rightarrow> if stop then (st', None) else collect_lines h cfg st' ls))"

fun collect_chunks ::
  "host \<Rightarrow> config \<Rightarrow> jsstring \<times> collected \<Rightarrow> bytes list \<Rightarrow> collected \<times> error option" where
  "collect_chunks h cfg (buf, st) [] = (st, None)"
| "collect_chunks h cfg (buf, st) (c # cs) =
     (let lines = split nl (buf @ buffer_toString c)
      in case collect_lines h cfg st (butlast lines) of
           (st', None) \<Rightarrow> collect_chunks h cfg (last lines, st') cs
         | (st', Some e) \<Rightarrow> (st', Some e))"

definition collect_response ::
  "host \<Rightarrow> config \<Rightarrow> jsval \<Rightarrow> response \<Rightarrow> bytes list \<Rightarrow> error + response \<times> error option" where
  "collect_response h cfg data res chunks =
     (case collect_chunks h cfg
             ([], \<lparr>c_result = JStr [], c_usageData = JStr [], c_hasError = False\<rparr>) chunks of
        (st, Some e) \<Rightarrow> Inr (res, Some e)
      | (st, None) \<Rightarrow>
          if c_hasError st
          then Inr (res_json h (res_status res 500)
                      (JObj [(str ''error'',
                              JStr (str ''An error occurred while processing the request.''))]),
                    None)
          else bnd (js_get data (str ''model'')) (\<lambda>model.
                 Inr (res_send (res_setHeader res (str ''application/json''))
                        (json_stringify_indent h
                           (chat_completion h model (c_result st) (c_usageData st))),
                      None)))"

text \<open>
  Lines 374 to 701, once the backend has answered. An error of the first component is
  thrown inside the handler's \<open>try\<close>; an error of the second escapes a listener.
\<close>

definition answer ::
  "host \<Rightarrow> config \<Rightarrow> jsval \<Rightarrow> jsval \<Rightarrow> response \<Rightarrow> http_reply
   \<Rightarrow> error + response \<times> error option" where
  "answer h cfg data stream res resp =
     (if \<not> reply_ok resp
      then Inr (res_send (res_status res (reply_status resp)) (reply_text resp), None)
      else if truthy stream
      then Inr (stream_response h cfg data res (reply_chunks resp))
      else if (case reply_contentType resp of
                 None \<Rightarrow> False
               | Some ct \<Rightarrow> ct \<noteq> [] \<and> str_includes ct (str ''application/json''))
      then bnd (blocking_json h cfg data (reply_text resp)) (\<lambda>formattedResponse.
             Inr (res_json h (res_setHeader res (str ''application/json'')) formattedResponse,
                  None))
      else collect_response h cfg data res (reply_chunks resp))"

text \<open>
  \<open>handleRequest\<close>: the response and the requests made, and the exception that escaped
  a listener, if any. Every other exception reaches the \<open>catch\<close> of line 702.
\<close>

definition handleRequest ::
  "host \<Rightarrow> config \<Rightarrow> jsval \<Rightarrow> response \<Rightarrow> world \<Rightarrow> (response \<times> world) \<times> error option" where
  "handleRequest h cfg data res w =
     (case prepare h cfg data w of
        (Inl e, w') \<Rightarrow> ((fail h res e, w'), None)
      | (Inr (requestBody, stream), w') \<Rightarrow>
          (let w'' = w'\<lparr>sent := sent w' @ [requestBody]\<rparr>
           in case bnd (post_run h requestBody) (answer h cfg data stream res) of
                Inl e \<Rightarrow> ((fail h res e, w''), None)
              | Inr (res', exn) \<Rightarrow> ((res', w''), exn)))"

section \<open>Notions used to state the properties\<close>

text \<open>
  The frames that reach the dispatch, with the loop of \<open>process_lines\<close> seen on them; a
  terminal frame, and what the dispatch writes first for it.
\<close>

fun on_frames ::
  "host \<Rightarrow> config \<Rightarrow> jsval \<Rightarrow> bool \<times> response \<Rightarrow> jsval list
   \<Rightarrow> (bool \<times> response) \<times> error option" where
  "on_frames h cfg data s [] = (s, None)"
| "on_frames h cfg data s (f # fs) =
     (case on_frame h cfg data s f of
        Inl e \<Rightarrow> (s, Some e)
      | Inr s' \<Rightarrow> on_frames h cfg data s' fs)"

definition outcome ::
  "stream_state \<times> error option \<Rightarrow> (bool \<times> response) \<times> error option" where
  "outcome r = (latch (fst r), snd r)"

definition event_is :: "jsval \<Rightarrow> string \<Rightarrow> bool" where
  "event_is chunkObj name = (js_get chunkObj (str ''event'') = Inr (JStr (str name)))"

definition terminal :: "jsval \<Rightarrow> bool" where
  "terminal chunkObj = (event_is chunkObj ''workflow_finished'' \<or> event_is chunkObj ''error'')"

definition emission :: "host \<Rightarrow> config \<Rightarrow> jsval \<Rightarrow> jsval \<Rightarrow> error + jsstring" where
  "emission h cfg data chunkObj =
     (if event_is chunkObj ''workflow_finished'' then finished_line h cfg data chunkObj
      else error_line h chunkObj)"






fun file_inputs :: "host \<Rightarrow> config \<Rightarrow> jsval \<Rightarrow> world \<Rightarrow> jsstring list \<Rightarrow> jsval list" where
  "file_inputs h cfg userId w [] = []"
| "file_inputs h cfg userId w (u # us) =
     (if startsWith u (str ''data:'')
      then (case uploadFileToDify h cfg userId u w of
              (r, w') \<Rightarrow>
                local_file (case r of Inr fileId \<Rightarrow> fileId | Inl e \<Rightarrow> JUndefined)
                  (getFileType h (getFileExtension h u))
                # file_inputs h cfg userId w' us)
      else remote_url u (getFileType h (getFileExtension h u)) # file_inputs h cfg userId w us)"

definition files_in :: "inputs \<Rightarrow> jsval list" where
  "files_in inputs = (case inputs (str ''file_input'') of Some (JArr xs) \<Rightarrow> xs | _ \<Rightarrow> [])"

definition array_or_unset :: "inputs \<Rightarrow> bool" where
  "array_or_unset inputs =
     (case inputs (str ''file_input'') of None \<Rightarrow> True | Some (JArr xs) \<Rightarrow> xs \<noteq> [] | _ \<Rightarrow> False)"















text \<open>\<open>v.k1.k2\<dots>\<close>, to read a field off a document.\<close>

fun path :: "jsval \<Rightarrow> jsstring list \<Rightarrow> error + jsval" where
  "path v [] = Inr v"
| "path v (k # ks) = bnd (js_get v k) (\<lambda>x. path x ks)"

section \<open>A test bench\<close>

text \<open>
  Concrete collaborators, on which the theorems are run. \<open>show_json\<close> agrees with
  \<open>JSON.stringify\<close> on values whose strings need no escape; \<open>bench_parse\<close> agrees with
  \<open>JSON.parse\<close> on the texts of its table and is used on those only. The helpers of
  \<open>utils.js\<close> and the base64 decoder are stand-ins; no theorem depends on them.
\<close>

fun show_json :: "jsval \<Rightarrow> jsstring" where
  "show_json JUndefined = []"
| "show_json JNull = str ''null''"
| "show_json (JBool b) = (if b then str ''true'' else str ''false'')"
| "show_json (JNum n) = dec_int n"
| "show_json (JStr s) = [34] @ s @ [34]"
| "show_json (JArr xs) =
     [91] @ join [44] (map (\<lambda>x. if x = JUndefined then str ''null'' else show_json x) xs) @ [93]"
| "show_json (JObj kvs) =
     [123] @ join [44] (map (\<lambda>kv. [34] @ fst kv @ [34, 58] @ show_json (snd kv))
                          (filter (\<lambda>kv. snd kv \<noteq> JUndefined) kvs)) @ [125]"

definition ping_frame :: jsval where
  "ping_frame = JObj [(str ''event'', JStr (str ''ping''))]"

definition finished_frame :: jsval where
  "finished_frame =
     JObj [(str ''event'', JStr (str ''workflow_finished'')),
           (str ''data'', JObj [(str ''outputs'', JObj [(str ''answer'', JStr (str ''hi''))]),
                               (str ''total_tokens'', JNum 42)]),
           (str ''created_at'', JNum 1700000000)]"

definition error_frame :: "jsstring \<Rightarrow> jsval" where
  "error_frame message =
     JObj [(str ''event'', JStr (str ''error'')), (str ''message'', JStr message)]"

definition ping_text :: jsstring where
  "ping_text = str ''{\"event\":\"ping\"}''"

definition finished_text :: jsstring where
  "finished_text = str ''{\"event\":\"workflow_finished\",\"data\":{\"outputs\":{\"answer\":\"hi\"},\"total_tokens\":42},\"created_at\":1700000000}''"

definition error_text :: "jsstring \<Rightarrow> jsstring" where
  "error_text message = str ''{\"event\":\"error\",\"message\":\"'' @ message @ str ''\"}''"

definition blocking_doc :: "int \<Rightarrow> jsval" where
  "blocking_doc n =
     JObj [(str ''data'', JObj [(str ''outputs'', JObj [(str ''answer'', JStr (str ''hi''))]),
                               (str ''total_tokens'', JNum n)])]"

definition blocking_text :: "int \<Rightarrow> jsstring" where
  "blocking_text n =
     str ''{\"data\":{\"outputs\":{\"answer\":\"hi\"},\"total_tokens\":'' @ dec_int n @ str ''}}''"

definition bench_table :: "(jsstring \<times> jsval) list" where
  "bench_table =
     [(ping_text, ping_frame),
      (finished_text, finished_frame),
      (error_text (str ''boom''), error_frame (str ''boom'')),
      (error_text [0xE9], error_frame [0xE9]),
      (error_text [0xFFFD, 0xFFFD], error_frame [0xFFFD, 0xFFFD]),
      (blocking_text 42, blocking_doc 42),
      (blocking_text 0, blocking_doc 0),
      (str ''{\"id\":\"file-0\"}'', JObj [(str ''id'', JStr (str ''file-0''))])]"

definition bench_parse :: "jsstring \<Rightarrow> jsval option" where
  "bench_parse = map_of bench_table"

definition reply :: "nat \<Rightarrow> jsstring \<Rightarrow> jsstring \<Rightarrow> bytes list \<Rightarrow> http_reply" where
  "reply st tx ct chunks =
     \<lparr>reply_status = st, reply_statusText = tx, reply_contentType = Some ct, reply_chunks = chunks\<rparr>"

definition bench_host :: host where
  "bench_host =
     \<lparr>json_parse = bench_parse,
      json_stringify = show_json,
      json_stringify_indent = show_json,
      date_now = 1700000000123,
      generateId = str ''abc123'',
      getFileExtension = (\<lambda>url. JStr (str ''png'')),
      getFileType = (\<lambda>ext. JStr (str ''image'')),
      base64_decode = (\<lambda>s. if s = str ''AAAA'' then [0, 0, 0] else []),
      post_upload = (\<lambda>n form.
        Inr (reply 201 (str ''Created'') (str ''application/json'') [str ''{\"id\":\"file-0\"}''])),
      post_run = (\<lambda>body.
        Inr (reply 200 (str ''OK'') (str ''application/json'') [blocking_text 42])),
      engine_message = (\<lambda>e. str ''error'')\<rparr>"

definition bench_config :: config where
  "bench_config =
     \<lparr>DIFY_API_URL = str ''http://dify.test/v1'', API_KEY = str ''app-key'', USER = None,
      SYSTEM_INPUT_VARIABLE = None, INPUT_VARIABLE = None,
      OUTPUT_VARIABLE = Some (str ''answer'')\<rparr>"

definition text_part :: "string \<Rightarrow> jsval" where
  "text_part t = JObj [(str ''type'', JStr (str ''text'')), (str ''text'', JStr (str t))]"

definition image_part :: "string \<Rightarrow> jsval" where
  "image_part url =
     JObj [(str ''type'', JStr (str ''image_url'')),
           (str ''image_url'', JObj [(str ''url'', JStr (str url))])]"

definition message :: "string \<Rightarrow> jsval \<Rightarrow> jsval" where
  "message role content = JObj [(str ''role'', JStr (str role)), (str ''content'', content)]"

definition bench_request :: "bool \<Rightarrow> jsval" where
  "bench_request stream =
     JObj [(str ''model'', JStr (str ''gpt-4o'')),
           (str ''stream'', JBool stream),
           (str ''messages'',
             JArr [message ''system'' (JStr (str ''Be brief.'')),
                   message ''user''
                     (JArr [text_part ''What is this?'',
                            image_part ''data:image/jpg;base64,AAAA'',
                            image_part ''https://img.test/cat.png''])])]"

section \<open>Auxiliary facts\<close>

lemmas eval_defs =
  str_def nl_def is_ws_def trim_def startsWith_def endsWith_def dec_int_def Let_def bnd_def
  buffer_toString_def utf8_start_def utf16_def is_set_def index_of_def
  res0_def res_setHeader_def res_write_def res_end_def res_status_def res_send_def res_json_def
  frame_of_def done_line_def select_result_def completion_chunk_def finished_line_def
  error_line_def on_frame_def process_line_def on_data_def stream_response_def
  event_is_def terminal_def emission_def List.map_filter_simps
  bench_host_def bench_parse_def bench_table_def bench_config_def bench_request_def
  ping_text_def ping_frame_def finished_text_def finished_frame_def error_text_def
  error_frame_def blocking_text_def blocking_doc_def reply_def message_def text_part_def
  image_part_def

lemma bnd_eq_Inr: "bnd m f = Inr y \<longleftrightarrow> (\<exists>x. m = Inr x \<and> f x = Inr y)"
  by (cases m) (simp_all add: bnd_def)

lemma str_inj: "str a = str b \<longleftrightarrow> a = b"
  by (simp add: str_def inj_map_eq_map inj_on_def)

lemma process_lines_frames:
  "process_lines h cfg data s ls = on_frames h cfg data s (List.map_filter (frame_of h) ls)"
  by (induction ls arbitrary: s)
     (auto simp: process_line_def List.map_filter_simps split: option.splits sum.splits)

lemma on_frames_append:
  "on_frames h cfg data s (xs @ ys) =
     (case on_frames h cfg data s xs of
        (s', None) \<Rightarrow> on_frames h cfg data s' ys
      | (s', Some e) \<Rightarrow> (s', Some e))"
  by (induction xs arbitrary: s) (auto split: sum.splits)

lemma on_frame_other:
  assumes "\<not> terminal f" and "on_frame h cfg data s f = Inr s'"
  shows "s' = s"
  using assms
  by (cases s)
     (auto simp: on_frame_def terminal_def event_is_def bnd_eq_Inr split: if_splits)

lemma on_frames_other:
  "\<forall>f \<in> set fs. \<not> terminal f \<Longrightarrow> on_frames h cfg data s fs = (s', x) \<Longrightarrow> s' = s"
proof (induction fs arbitrary: s)
  case Nil
  then show ?case by simp
next
  case (Cons f fs)
  show ?case
  proof (cases "on_frame h cfg data s f")
    case (Inl e)
    with Cons.prems show ?thesis by simp
  next
    case (Inr s1)
    with Cons.prems have "s1 = s" using on_frame_other [of f h cfg data s s1] by simp
    with Cons Inr show ?thesis by simp
  qed
qed

lemma on_frame_terminal:
  assumes "terminal t" and "on_frame h cfg data (False, res) t = Inr s'"
  shows "\<exists>line. emission h cfg data t = Inr line \<and> fst s' \<and> ended (snd s')
           \<and> writes (snd s') = writes res @ [line, done_line]"
  using assms
  by (auto simp: on_frame_def terminal_def event_is_def emission_def bnd_eq_Inr Let_def
        res_end_def res_write_def res_status_def str_inj split: if_splits)

lemma on_frame_latched:
  assumes "\<not> event_is f ''error''" and "on_frame h cfg data (True, r) f = Inr s'"
  shows "s' = (True, r)"
  using assms
  by (auto simp: on_frame_def event_is_def bnd_eq_Inr split: if_splits)

lemma on_frames_latched:
  "\<forall>f \<in> set fs. \<not> event_is f ''error'' \<Longrightarrow> on_frames h cfg data (True, r) fs = (s', x)
   \<Longrightarrow> s' = (True, r)"
proof (induction fs)
  case Nil
  then show ?case by simp
next
  case (Cons f fs)
  show ?case
  proof (cases "on_frame h cfg data (True, r) f")
    case (Inl e)
    with Cons.prems show ?thesis by simp
  next
    case (Inr s1)
    with Cons.prems have "s1 = (True, r)" using on_frame_latched [of f h cfg data r s1] by simp
    with Cons Inr show ?thesis by simp
  qed
qed

lemma split_not_Nil: "split sep s \<noteq> []"
  by (induction s) (auto split: list.splits)

lemma split_append:
  "split sep (a @ b) = butlast (split sep a) @ split sep (last (split sep a) @ b)"
proof (induction a)
  case Nil
  show ?case by simp
next
  case (Cons c a)
  show ?case
  proof (cases "c = sep")
    case True
    with Cons show ?thesis by (simp add: split_not_Nil)
  next
    case False
    obtain l ls where sa: "split sep a = l # ls"
      using split_not_Nil [of sep a] by (cases "split sep a") auto
    show ?thesis
    proof (cases ls)
      case Nil
      with sa Cons False show ?thesis by simp
    next
      case (Cons l' ls')
      with sa Cons.IH False show ?thesis
        by (simp split: list.splits)
    qed
  qed
qed

lemma butlast_split_append:
  "butlast (split sep (a @ b))
     = butlast (split sep a) @ butlast (split sep (last (split sep a) @ b))"
  by (subst split_append) (simp add: butlast_append split_not_Nil)

lemma last_split_append:
  "last (split sep (a @ b)) = last (split sep (last (split sep a) @ b))"
  by (subst split_append) (simp add: split_not_Nil)

lemma process_lines_append:
  "process_lines h cfg data s (xs @ ys) =
     (case process_lines h cfg data s xs of
        (s', None) \<Rightarrow> process_lines h cfg data s' ys
      | (s', Some e) \<Rightarrow> (s', Some e))"
  by (induction xs arbitrary: s) (auto split: sum.splits)

lemma split_no_sep: "sep \<notin> set s \<Longrightarrow> split sep s = [s]"
  by (induction s) auto

lemma last_split_no_sep: "sep \<notin> set (last (split sep s))"
proof (induction s)
  case Nil
  show ?case by simp
next
  case (Cons c s)
  then show ?case
    by (cases "split sep s") (auto simp: split_not_Nil)
qed

lemma on_data_lines:
  "on_data h cfg data st c =
     (case process_lines h cfg data (latch st)
             (butlast (split nl (buffer st @ buffer_toString c))) of
        (s, None) \<Rightarrow> (\<lparr>buffer = last (split nl (buffer st @ buffer_toString c)), latch = s\<rparr>, None)
      | (s, Some e) \<Rightarrow> (\<lparr>buffer = buffer st @ buffer_toString c, latch = s\<rparr>, Some e))"
  by (simp add: on_data_def Let_def)

lemma run_stream_lines:
  "nl \<notin> set (buffer st) \<Longrightarrow>
   outcome (run_stream h cfg data st cs) =
     process_lines h cfg data (latch st)
       (butlast (split nl (buffer st @ concat (map buffer_toString cs))))
   \<and> (snd (run_stream h cfg data st cs) = None \<longrightarrow>
        buffer (fst (run_stream h cfg data st cs))
          = last (split nl (buffer st @ concat (map buffer_toString cs))))"
proof (induction cs arbitrary: st)
  case Nil
  then show ?case by (simp add: outcome_def split_no_sep)
next
  case (Cons c cs)
  let ?b = "buffer st @ buffer_toString c"
  let ?rest = "concat (map buffer_toString cs)"
  obtain s x where pl: "process_lines h cfg data (latch st) (butlast (split nl ?b)) = (s, x)"
    by (cases "process_lines h cfg data (latch st) (butlast (split nl ?b))")
  have unfold: "butlast (split nl (buffer st @ buffer_toString c @ ?rest))
      = butlast (split nl ?b) @ butlast (split nl (last (split nl ?b) @ ?rest))"
    using butlast_split_append [of nl ?b ?rest] by simp
  have unfold_last: "last (split nl (buffer st @ buffer_toString c @ ?rest))
      = last (split nl (last (split nl ?b) @ ?rest))"
    using last_split_append [of nl ?b ?rest] by simp
  show ?case
  proof (cases x)
    case None
    let ?st' = "\<lparr>buffer = last (split nl ?b), latch = s\<rparr>"
    have od: "on_data h cfg data st c = (?st', None)"
      using pl None by (simp add: on_data_lines)
    have inv: "nl \<notin> set (buffer ?st')" by (simp add: last_split_no_sep)
    from Cons.IH [OF inv] od pl None show ?thesis
      by (simp add: unfold unfold_last process_lines_append)
  next
    case (Some e)
    have od: "on_data h cfg data st c = (\<lparr>buffer = ?b, latch = s\<rparr>, Some e)"
      using pl Some by (simp add: on_data_lines)
    from od pl Some show ?thesis
      by (simp add: unfold process_lines_append outcome_def)
  qed
qed

lemma stream_response_outcome:
  "stream_response h cfg data res cs =
     (let r = outcome (run_stream h cfg data
                \<lparr>buffer = [], latch = (False, res_setHeader res (str ''text/event-stream''))\<rparr> cs)
      in (snd (fst r), snd r))"
  by (simp add: stream_response_def outcome_def split: prod.splits)

section \<open>The streaming translator: properties\<close>

lemma ascii_toString:
  assumes "\<forall>b \<in> set bs. b < 128"
  shows "buffer_toString bs = bs"
proof -
  have run: "\<forall>b \<in> set xs. b < 128 \<Longrightarrow> utf8_run Idle xs = xs" for xs
    by (induction xs) (simp_all add: utf8_start_def)
  have cat: "\<forall>b \<in> set xs. b < 128 \<Longrightarrow> concat (map utf16 xs) = xs" for xs
    by (induction xs) (simp_all add: utf16_def)
  from assms show ?thesis by (simp add: buffer_toString_def run cat)
qed

lemma ascii_chunks:
  assumes "\<forall>c \<in> set cs. \<forall>b \<in> set c. b < 128"
  shows "buffer_toString (concat cs) = concat (map buffer_toString cs)"
proof -
  have "buffer_toString (concat cs) = concat cs"
    using assms by (intro ascii_toString) auto
  moreover have "map buffer_toString cs = cs"
    using assms by (induction cs) (simp_all add: ascii_toString)
  ultimately show ?thesis by simp
qed

text \<open>
  C3. Let the chunks of the backend's body be such that decoding them one by one gives
  the text of the whole body (no chunk ends inside a multi-byte UTF-8 sequence; any ASCII
  body will do, by \<open>ascii_chunks\<close>). Then, with the clock reading of the chunk id held
  fixed, the streaming translator leaves the same client response, and the same escaped
  exception if any, as on the whole body in one chunk: in both cases it handles, in
  order, the complete lines of the body, that is all the pieces between newlines but the
  last, which stays in the buffer.
\<close>

theorem chunking:
  assumes "buffer_toString (concat cs) = concat (map buffer_toString cs)"
  shows "stream_response h cfg data res cs = stream_response h cfg data res [concat cs]
         \<and> stream_response h cfg data res cs =
             (case process_lines h cfg data
                     (False, res_setHeader res (str ''text/event-stream''))
                     (butlast (split nl (buffer_toString (concat cs)))) of
                (s, x) \<Rightarrow> (snd s, x))"
proof -
  let ?st = "\<lparr>buffer = [], latch = (False, res_setHeader res (str ''text/event-stream''))\<rparr>"
  have inv: "nl \<notin> set (buffer ?st)" by simp
  have many: "outcome (run_stream h cfg data ?st cs) =
      process_lines h cfg data (latch ?st) (butlast (split nl (buffer_toString (concat cs))))"
    using run_stream_lines [OF inv, of h cfg data cs] assms by simp
  have one: "outcome (run_stream h cfg data ?st [concat cs]) =
      process_lines h cfg data (latch ?st) (butlast (split nl (buffer_toString (concat cs))))"
    using run_stream_lines [OF inv, of h cfg data "[concat cs]"] by simp
  show ?thesis
    by (simp only: stream_response_outcome many one Let_def)
       (simp add: case_prod_unfold)
qed

text \<open>A body of two frames, cut inside the first frame and inside the second prefix.\<close>

theorem chunking_witness:
  "stream_response bench_host bench_config (bench_request True) res0
     [str ''data: {\"event\":\"err'', str ''or\",\"message\":\"boom\"}'' @ [nl] @ str ''da'',
      str ''ta: {\"event\":\"ping\"}'' @ [nl]]
   = stream_response bench_host bench_config (bench_request True) res0
       [str ''data: {\"event\":\"error\",\"message\":\"boom\"}'' @ [nl]
        @ str ''data: {\"event\":\"ping\"}'' @ [nl]]"
proof -
  let ?cs = "[str ''data: {\"event\":\"err'', str ''or\",\"message\":\"boom\"}'' @ [nl] @ str ''da'',
      str ''ta: {\"event\":\"ping\"}'' @ [nl]]"
  have h: "buffer_toString (concat ?cs) = concat (map buffer_toString ?cs)"
    by (simp add: eval_defs)
  have c: "concat ?cs = str ''data: {\"event\":\"error\",\"message\":\"boom\"}'' @ [nl]
        @ str ''data: {\"event\":\"ping\"}'' @ [nl]"
    by (simp add: eval_defs)
  show ?thesis
    using chunking [OF h, of bench_host bench_config "bench_request True" res0]
    by (simp only: c)
qed

text \<open>
  The body \<open>data: {"event":"error","message":"\<dots>"}\<close> whose message is the letter
  U+00E9, two bytes in UTF-8, cut between these two bytes: each half decodes to U+FFFD,
  and the client receives another message than on the whole body.
\<close>

theorem chunking_counterexample:
  "stream_response bench_host bench_config (bench_request True) res0
     [str ''data: {\"event\":\"error\",\"message\":\"'' @ [0xC3], [0xA9] @ str ''\"}'' @ [nl]]
   \<noteq> stream_response bench_host bench_config (bench_request True) res0
       [str ''data: {\"event\":\"error\",\"message\":\"'' @ [0xC3] @ [0xA9] @ str ''\"}'' @ [nl]]"
  by (simp add: eval_defs)

text \<open>
  C1. Let the complete lines of a streaming answer carry frames among which one is
  terminal (\<open>workflow_finished\<close> or \<open>error\<close>), let no \<open>error\<close> frame come after the first
  terminal frame, and let no exception escape. Then the translator writes the emission
  of that first terminal frame (the result chunk or the error payload), then the
  \<open>[DONE]\<close> line, ends the response, and writes nothing else, whatever
  \<open>workflow_finished\<close> and other frames follow.
\<close>

theorem terminal_once:
  assumes frames: "List.map_filter (frame_of h) ls = pre @ t # post"
    and pre: "\<forall>f \<in> set pre. \<not> terminal f"
    and t: "terminal t"
    and post: "\<forall>f \<in> set post. \<not> event_is f ''error''"
    and run: "process_lines h cfg data (False, res) ls = (s, None)"
  shows "\<exists>line. emission h cfg data t = Inr line \<and> fst s \<and> ended (snd s)
           \<and> writes (snd s) = writes res @ [line, done_line]"
proof -
  have all: "on_frames h cfg data (False, res) (pre @ t # post) = (s, None)"
    using run frames by (simp add: process_lines_frames)
  obtain s0 x0 where p: "on_frames h cfg data (False, res) pre = (s0, x0)"
    by (cases "on_frames h cfg data (False, res) pre")
  have s0: "s0 = (False, res)" using on_frames_other [OF pre p] .
  have x0: "x0 = None" using all p by (cases x0) (simp_all add: on_frames_append)
  have rest: "on_frames h cfg data (False, res) (t # post) = (s, None)"
    using all p s0 x0 by (simp add: on_frames_append)
  then obtain s1 where t1: "on_frame h cfg data (False, res) t = Inr s1"
    and tail: "on_frames h cfg data s1 post = (s, None)"
    by (cases "on_frame h cfg data (False, res) t") auto
  from on_frame_terminal [OF t t1] obtain line where
    line: "emission h cfg data t = Inr line" and l1: "fst s1" and e1: "ended (snd s1)"
    and w1: "writes (snd s1) = writes res @ [line, done_line]" by blast
  have "s1 = (True, snd s1)" using l1 by (cases s1) simp
  with tail have "on_frames h cfg data (True, snd s1) post = (s, None)" by simp
  from on_frames_latched [OF post this] have "s = (True, snd s1)" .
  with line e1 w1 show ?thesis by auto
qed

text \<open>A ping, the final frame, an empty line, the final frame again, a ping.\<close>

theorem terminal_once_witness:
  "\<exists>line. emission bench_host bench_config (bench_request True) finished_frame = Inr line
      \<and> writes \<lparr>statusCode = 200, contentType = None,
            writes = [str ''data: {\"id\":\"chatcmpl-1700000000123\",\"object\":\"chat.completion.chunk\",\"created\":1700000000,\"model\":\"gpt-4o\",\"choices\":[{\"index\":0,\"delta\":{\"content\":\"hi\"},\"finish_reason\":\"stop\"}]}'' @ [nl, nl], done_line],
            ended = True\<rparr> = writes res0 @ [line, done_line]"
proof -
  let ?ls = "[str ''data: '' @ ping_text, str ''data: '' @ finished_text, [],
              str ''data: '' @ finished_text, str ''data: '' @ ping_text]"
  let ?r = "\<lparr>statusCode = 200, contentType = None,
            writes = [str ''data: {\"id\":\"chatcmpl-1700000000123\",\"object\":\"chat.completion.chunk\",\"created\":1700000000,\"model\":\"gpt-4o\",\"choices\":[{\"index\":0,\"delta\":{\"content\":\"hi\"},\"finish_reason\":\"stop\"}]}'' @ [nl, nl], done_line],
            ended = True\<rparr>"
  have frames: "List.map_filter (frame_of bench_host) ?ls
      = [ping_frame] @ finished_frame # [finished_frame, ping_frame]"
    by (simp add: eval_defs)
  have pre: "\<forall>f \<in> set [ping_frame]. \<not> terminal f" by (simp add: eval_defs)
  have t: "terminal finished_frame" by (simp add: eval_defs)
  have post: "\<forall>f \<in> set [finished_frame, ping_frame]. \<not> event_is f ''error''" by (simp add: eval_defs)
  have run: "process_lines bench_host bench_config (bench_request True) (False, res0) ?ls
      = ((True, ?r), None)"
    by (simp add: eval_defs)
  from terminal_once [OF frames pre t post run] show ?thesis by simp
qed

text \<open>
  A body whose only frame is a ping: nothing is written, neither a terminal emission nor
  the \<open>[DONE]\<close> line, and the response is not ended.
\<close>

theorem terminal_once_counterexample:
  "stream_response bench_host bench_config (bench_request True) res0
     [str ''data: {\"event\":\"ping\"}'' @ [nl, nl]]
   = (\<lparr>statusCode = 200, contentType = Some (str ''text/event-stream''), writes = [],
       ended = False\<rparr>, None)"
  by (simp add: eval_defs)

text \<open>
  The latch does not cover the first write of the \<open>error\<close> branch (line 492), while it
  covers every write of the \<open>workflow_finished\<close> branch: an \<open>error\<close> frame that comes
  after the final frame has its payload written on the ended response.
\<close>

lemma error_after_end_is_written:
  "stream_response bench_host bench_config (bench_request True) res0
     [str ''data: '' @ finished_text @ [nl], str ''data: '' @ error_text (str ''boom'') @ [nl]]
   = (\<lparr>statusCode = 500, contentType = Some (str ''text/event-stream''),
       writes = [str ''data: {\"id\":\"chatcmpl-1700000000123\",\"object\":\"chat.completion.chunk\",\"created\":1700000000,\"model\":\"gpt-4o\",\"choices\":[{\"index\":0,\"delta\":{\"content\":\"hi\"},\"finish_reason\":\"stop\"}]}'' @ [nl, nl],
                 done_line,
                 str ''data: {\"error\":\"boom\"}'' @ [nl, nl]],
       ended = True\<rparr>, None)"
  by (simp add: eval_defs)

text \<open>
  C8. A complete line that, trimmed, does not start with \<open>data:\<close>, or whose rest,
  trimmed, does not start with an opening brace, or whose rest \<open>JSON.parse\<close> rejects,
  leaves the latch and the response as they are, and the loop handles the lines after it
  as if the line were not there.
\<close>

theorem skipped_line:
  assumes "\<not> startsWith (trim line) (str ''data:'')
           \<or> \<not> startsWith (trim (drop 5 (trim line))) (str ''{'')
           \<or> json_parse h (trim (drop 5 (trim line))) = None"
  shows "process_line h cfg data s line = Inr s
         \<and> process_lines h cfg data s (before @ line # after)
             = process_lines h cfg data s (before @ after)"
proof -
  have none: "frame_of h line = None"
    using assms by (auto simp: frame_of_def Let_def)
  then have one: "process_line h cfg data s line = Inr s"
    by (simp add: process_line_def)
  have "List.map_filter (frame_of h) (before @ line # after)
          = List.map_filter (frame_of h) (before @ after)"
    using none by (simp add: List.map_filter_def)
  with one show ?thesis by (simp add: process_lines_frames)
qed

text \<open>A line without the prefix, the \<open>[DONE]\<close> line, and a frame cut short.\<close>

theorem skipped_line_witness:
  "process_lines bench_host bench_config (bench_request True) (False, res0)
     ([str ''data: '' @ ping_text] @ str ''event: ping''
        # [str ''data: '' @ error_text (str ''boom'')])
   = process_lines bench_host bench_config (bench_request True) (False, res0)
       ([str ''data: '' @ ping_text] @ [str ''data: '' @ error_text (str ''boom'')])
   \<and> process_line bench_host bench_config (bench_request True) (False, res0)
         (str ''data: [DONE]'') = Inr (False, res0)
   \<and> process_line bench_host bench_config (bench_request True) (False, res0)
         (str ''data: {\"event\":'') = Inr (False, res0)"
proof -
  have a: "\<not> startsWith (trim (str ''event: ping'')) (str ''data:'')
      \<or> \<not> startsWith (trim (drop 5 (trim (str ''event: ping'')))) (str ''{'')
      \<or> json_parse bench_host (trim (drop 5 (trim (str ''event: ping'')))) = None"
    by (simp add: eval_defs)
  have b: "\<not> startsWith (trim (str ''data: [DONE]'')) (str ''data:'')
      \<or> \<not> startsWith (trim (drop 5 (trim (str ''data: [DONE]'')))) (str ''{'')
      \<or> json_parse bench_host (trim (drop 5 (trim (str ''data: [DONE]'')))) = None"
    by (simp add: eval_defs)
  have c: "\<not> startsWith (trim (str ''data: {\"event\":'')) (str ''data:'')
      \<or> \<not> startsWith (trim (drop 5 (trim (str ''data: {\"event\":'')))) (str ''{'')
      \<or> json_parse bench_host (trim (drop 5 (trim (str ''data: {\"event\":'')))) = None"
    by (simp add: eval_defs)
  show ?thesis
    using skipped_line [OF a] skipped_line [OF b] skipped_line [OF c]
    by blast
qed

section \<open>The uploader and the image scan: properties\<close>











lemma pushed:
  "array_or_unset (inputs(str ''file_input'' \<mapsto> JArr (xs @ [fi])))"
  "files_in (inputs(str ''file_input'' \<mapsto> JArr ys)) = ys"
  by (simp_all add: array_or_unset_def files_in_def)




lemma file_inputs_Nil [simp]: "file_inputs h cfg userId w us = [] \<longleftrightarrow> us = []"
  by (cases us) (auto split: prod.splits)







lemmas request_defs =
  uploadFileToDify_def match_data_url_def line_terminator_def upload_form_of_def
  reply_ok_def reply_text_def push_file_input_def local_file_def remote_url_def
  image_url_of_def scan_part_def scan_message_def system_part_def system_message_def
  user_part_def user_message_def input_variable_def map_inputs_def user_id_def
  messages_of_def stream_flag_def prepare_def world0_def



section \<open>The inputs and the requests to the backend: properties\<close>

lemma dropWhile_rev_trimmed:
  "dropWhile P (rev (dropWhile P (rev (dropWhile P s)))) = rev (dropWhile P (rev (dropWhile P s)))"
proof (cases "dropWhile P (rev (dropWhile P s))")
  case Nil
  show ?thesis unfolding Nil by simp
next
  case (Cons x xs)
  let ?d = "dropWhile P s"
  let ?e = "dropWhile P (rev ?d)"
  have "rev ?d \<noteq> []" using Cons by (metis dropWhile.simps(1) list.distinct(1))
  then have d: "?d \<noteq> []" by simp
  then have head: "\<not> P (hd ?d)" by (simp add: hd_dropWhile)
  have e: "?e \<noteq> []" using Cons by simp
  have "rev ?d = takeWhile P (rev ?d) @ ?e" by simp
  then have "last (rev ?d) = last ?e" using e by (metis last_appendR)
  then have "last ?e = hd ?d" using d by (simp add: last_rev)
  then have "\<not> P (hd (rev ?e))" using head e by (simp add: hd_rev)
  moreover have "rev ?e \<noteq> []" using e by simp
  ultimately show ?thesis
    by (metis dropWhile_eq_self_iff)
qed

lemma trim_trim: "trim (trim s) = trim s"
  by (simp add: trim_def dropWhile_rev_trimmed dropWhile_idem)

text \<open>
  C2. Let \<open>systemPrompt\<close> and \<open>userQuery\<close> be the trimmed texts, and let
  \<open>inputVariable\<close> be \<open>INPUT_VARIABLE\<close> when set (a non-empty string) and
  \<open>text_input\<close> otherwise. Provided that \<open>SYSTEM_INPUT_VARIABLE\<close>, when set, is another
  name than \<open>inputVariable\<close>: if \<open>SYSTEM_INPUT_VARIABLE\<close> is set and \<open>systemPrompt\<close>
  is not empty, the inputs hold \<open>systemPrompt\<close> under \<open>SYSTEM_INPUT_VARIABLE\<close> and
  \<open>userQuery\<close> under \<open>inputVariable\<close>; else if \<open>systemPrompt\<close> is not empty they hold
  under \<open>inputVariable\<close> the \<open>systemPrompt\<close>, two newlines and the \<open>userQuery\<close>; else
  they hold \<open>userQuery\<close> under \<open>inputVariable\<close>.
\<close>

theorem input_mapping:
  assumes "is_set (SYSTEM_INPUT_VARIABLE cfg)
           \<longrightarrow> the (SYSTEM_INPUT_VARIABLE cfg) \<noteq> input_variable cfg"
  shows "(let systemPrompt = trim systemPrompt0;
              userQuery = trim userQuery0;
              inputVariable = input_variable cfg;
              inputs' = map_inputs cfg inputs systemPrompt0 userQuery0
          in if is_set (SYSTEM_INPUT_VARIABLE cfg) \<and> systemPrompt \<noteq> []
             then inputs' (the (SYSTEM_INPUT_VARIABLE cfg)) = Some (JStr systemPrompt)
                  \<and> inputs' inputVariable = Some (JStr userQuery)
             else if systemPrompt \<noteq> []
             then inputs' inputVariable = Some (JStr (systemPrompt @ [nl, nl] @ userQuery))
             else inputs' inputVariable = Some (JStr userQuery))
         \<and> input_variable cfg
             = (if is_set (INPUT_VARIABLE cfg) then the (INPUT_VARIABLE cfg)
                else str ''text_input'')"
  using assms by (simp add: map_inputs_def Let_def trim_trim input_variable_def)

text \<open>A separate variable for the system prompt, and the default name for the query.\<close>

theorem input_mapping_witness:
  "map_inputs (bench_config\<lparr>SYSTEM_INPUT_VARIABLE := Some (str ''system'')\<rparr>) Map.empty
     (str ''Be brief.'' @ [nl]) (str ''What is this?'' @ [nl]) (str ''system'')
     = Some (JStr (str ''Be brief.''))
   \<and> map_inputs (bench_config\<lparr>SYSTEM_INPUT_VARIABLE := Some (str ''system'')\<rparr>) Map.empty
       (str ''Be brief.'' @ [nl]) (str ''What is this?'' @ [nl]) (str ''text_input'')
       = Some (JStr (str ''What is this?''))"
proof -
  let ?cfg = "bench_config\<lparr>SYSTEM_INPUT_VARIABLE := Some (str ''system'')\<rparr>"
  have h: "is_set (SYSTEM_INPUT_VARIABLE ?cfg)
           \<longrightarrow> the (SYSTEM_INPUT_VARIABLE ?cfg) \<noteq> input_variable ?cfg"
    by (simp add: eval_defs input_variable_def)
  have s: "is_set (SYSTEM_INPUT_VARIABLE ?cfg)"
    by (simp add: eval_defs)
  have v: "input_variable ?cfg = str ''text_input''"
    by (simp add: eval_defs input_variable_def)
  have n: "the (SYSTEM_INPUT_VARIABLE ?cfg) = str ''system''"
    by simp
  have t1: "trim (str ''Be brief.'' @ [nl]) = str ''Be brief.''"
    by (simp add: eval_defs)
  have t2: "trim (str ''What is this?'' @ [nl]) = str ''What is this?''"
    by (simp add: eval_defs)
  have ne: "str ''Be brief.'' \<noteq> []" by (simp add: str_def)
  note inst = input_mapping [OF h, of "str ''Be brief.'' @ [nl]" "str ''What is this?'' @ [nl]"
      Map.empty, unfolded Let_def t1 t2 v n]
  from inst s ne show ?thesis by (simp only: if_True simp_thms)
qed

text \<open>
  \<open>SYSTEM_INPUT_VARIABLE\<close> set to the default name of the query: the query overwrites
  the system prompt, which is not sent.
\<close>

theorem input_mapping_counterexample:
  "is_set (SYSTEM_INPUT_VARIABLE (bench_config\<lparr>SYSTEM_INPUT_VARIABLE := Some (str ''text_input'')\<rparr>))
   \<and> trim (str ''Be brief.'') \<noteq> []
   \<and> map_inputs (bench_config\<lparr>SYSTEM_INPUT_VARIABLE := Some (str ''text_input'')\<rparr>) Map.empty
       (str ''Be brief.'') (str ''Hello'')
       (the (SYSTEM_INPUT_VARIABLE
              (bench_config\<lparr>SYSTEM_INPUT_VARIABLE := Some (str ''text_input'')\<rparr>)))
       \<noteq> Some (JStr (trim (str ''Be brief.'')))"
  by (simp add: eval_defs input_variable_def map_inputs_def)

lemma uploadFileToDify_world:
  assumes "uploadFileToDify h cfg userId s w = (r, w')"
  shows "sent w' = sent w
         \<and> set (posted w') \<subseteq> set (posted w) \<union> {f. form_user f = userId}"
  using assms
  by (auto simp: uploadFileToDify_def upload_form_of_def Let_def
        split: option.splits sum.splits if_splits prod.splits)

lemma scan_part_world:
  assumes "scan_part h cfg userId c inputs w = (r, w')"
  shows "sent w' = sent w
         \<and> set (posted w') \<subseteq> set (posted w) \<union> {f. form_user f = userId}"
proof (cases "image_url_of c")
  case (Inl e)
  with assms show ?thesis by (auto simp: scan_part_def)
next
  case (Inr found)
  show ?thesis
  proof (cases found)
    case None
    with Inr assms show ?thesis by (auto simp: scan_part_def)
  next
    case (Some u)
    show ?thesis
    proof (cases "startsWith u (str ''data:'')")
      case True
      obtain r1 w1 where up: "uploadFileToDify h cfg userId u w = (r1, w1)"
        by (cases "uploadFileToDify h cfg userId u w")
      with assms Inr Some True have "w' = w1"
        by (cases r1) (auto simp: scan_part_def Let_def)
      with uploadFileToDify_world [OF up] show ?thesis by simp
    next
      case False
      with assms Inr Some show ?thesis by (auto simp: scan_part_def Let_def)
    qed
  qed
qed

lemma scan_parts_world:
  "scan_parts h cfg userId cs inputs w = (r, w')
   \<Longrightarrow> sent w' = sent w
       \<and> set (posted w') \<subseteq> set (posted w) \<union> {f. form_user f = userId}"
proof (induction cs arbitrary: inputs w)
  case Nil
  then show ?case by auto
next
  case (Cons c cs)
  obtain r1 w1 where one: "scan_part h cfg userId c inputs w = (r1, w1)"
    by (cases "scan_part h cfg userId c inputs w")
  note first = scan_part_world [OF one]
  show ?case
  proof (cases r1)
    case (Inl e)
    with Cons.prems one first show ?thesis by auto
  next
    case (Inr inputs1)
    with Cons.prems one have "scan_parts h cfg userId cs inputs1 w1 = (r, w')" by simp
    from Cons.IH [OF this] first show ?thesis by auto
  qed
qed

lemma scan_message_world:
  assumes "scan_message h cfg userId m inputs w = (r, w')"
  shows "sent w' = sent w
         \<and> set (posted w') \<subseteq> set (posted w) \<union> {f. form_user f = userId}"
proof (cases "js_get m (str ''content'')")
  case (Inl e)
  with assms show ?thesis by (auto simp: scan_message_def)
next
  case (Inr content)
  show ?thesis
  proof (cases "\<exists>parts. content = JArr parts")
    case True
    then obtain parts where "content = JArr parts" by blast
    with Inr assms have "scan_parts h cfg userId parts inputs w = (r, w')"
      by (simp add: scan_message_def)
    from scan_parts_world [OF this] show ?thesis .
  next
    case False
    with Inr assms show ?thesis by (cases content) (auto simp: scan_message_def)
  qed
qed

lemma scan_messages_world:
  "scan_messages h cfg userId ms inputs w = (r, w')
   \<Longrightarrow> sent w' = sent w
       \<and> set (posted w') \<subseteq> set (posted w) \<union> {f. form_user f = userId}"
proof (induction ms arbitrary: inputs w)
  case Nil
  then show ?case by auto
next
  case (Cons m ms)
  obtain r1 w1 where one: "scan_message h cfg userId m inputs w = (r1, w1)"
    by (cases "scan_message h cfg userId m inputs w")
  note first = scan_message_world [OF one]
  show ?case
  proof (cases r1)
    case (Inl e)
    with Cons.prems one first show ?thesis by auto
  next
    case (Inr inputs1)
    with Cons.prems one have "scan_messages h cfg userId ms inputs1 w1 = (r, w')" by simp
    from Cons.IH [OF this] first show ?thesis by auto
  qed
qed

lemma prepare_world:
  assumes "prepare h cfg data w = (r, w')"
  shows "sent w' = sent w
         \<and> (\<forall>f \<in> set (posted w'). f \<in> set (posted w) \<or> Inr (form_user f) = user_id cfg data)"
proof (cases "messages_of data")
  case (Inl e)
  with assms show ?thesis by (auto simp: prepare_def bnd_def)
next
  case (Inr messages)
  show ?thesis
  proof (cases "user_id cfg data")
    case (Inl e)
    with Inr assms show ?thesis by (auto simp: prepare_def bnd_def)
  next
    case u: (Inr userId)
    obtain r1 w1 where scan: "scan_messages h cfg userId messages Map.empty w = (r1, w1)"
      by (cases "scan_messages h cfg userId messages Map.empty w")
    with assms Inr u have "w' = w1"
      by (cases r1) (auto simp: prepare_def bnd_def)
    with scan_messages_world [OF scan] u show ?thesis by auto
  qed
qed

lemma prepare_body:
  assumes "prepare h cfg data w = (Inr (body, stream), w')"
  shows "body_files body = [] \<and> Inr (body_user body) = user_id cfg data
         \<and> stream_flag data = Inr stream
         \<and> body_response_mode body
             = (if truthy stream then str ''streaming'' else str ''blocking'')"
  using assms
  by (auto simp: prepare_def bnd_def split: sum.splits prod.splits)

lemma handleRequest_world:
  assumes "handleRequest h cfg data res w = ((res', w'), x)"
  shows "(\<forall>f \<in> set (posted w'). f \<in> set (posted w) \<or> Inr (form_user f) = user_id cfg data)
         \<and> (\<forall>b \<in> set (sent w'). b \<in> set (sent w)
                \<or> (body_files b = [] \<and> Inr (body_user b) = user_id cfg data))"
proof -
  obtain r w1 where p: "prepare h cfg data w = (r, w1)"
    by (cases "prepare h cfg data w")
  note pw = prepare_world [OF p]
  show ?thesis
  proof (cases r)
    case (Inl e)
    with assms p have "w' = w1" by (simp add: handleRequest_def)
    with pw show ?thesis by auto
  next
    case (Inr bs)
    obtain body stream where bs: "bs = (body, stream)" by (cases bs)
    from p Inr bs have pb: "prepare h cfg data w = (Inr (body, stream), w1)" by simp
    from assms pb have "w' = w1\<lparr>sent := sent w1 @ [body]\<rparr>"
      by (auto simp: handleRequest_def Let_def split: sum.splits prod.splits)
    with pw prepare_body [OF pb] show ?thesis by auto
  qed
qed

lemma world0_empty: "posted world0 = []" "sent world0 = []"
  by (simp_all add: world0_def)

lemma handleRequest_requests:
  "snd (fst (handleRequest h cfg data res w))
     = (case prepare h cfg data w of
          (Inl e, w') \<Rightarrow> w'
        | (Inr (body, stream), w') \<Rightarrow> w'\<lparr>sent := sent w' @ [body]\<rparr>)"
  by (simp add: handleRequest_def Let_def split: prod.splits sum.splits)

text \<open>
  C9. Every body that a request sends to \<open>/workflows/run\<close> has the empty array as
  its \<open>files\<close> field, whatever images the messages hold.
\<close>

theorem files_empty:
  "\<forall>b \<in> set (sent (snd (fst (handleRequest h cfg data res world0)))). body_files b = []"
proof -
  obtain res' w' x where run: "handleRequest h cfg data res world0 = ((res', w'), x)"
    by (metis prod.exhaust)
  from handleRequest_world [OF run] show ?thesis
    by (simp add: run world0_empty)
qed

text \<open>
  The request of the bench, with its two images: one body is sent, its \<open>files\<close> are
  empty and the two file references are under \<open>file_input\<close>.
\<close>

theorem files_empty_witness:
  "map body_files (sent (snd (fst (handleRequest bench_host bench_config (bench_request False)
      res0 world0)))) = [[]]
   \<and> map (\<lambda>b. body_inputs b (str ''file_input''))
        (sent (snd (fst (handleRequest bench_host bench_config (bench_request False)
           res0 world0))))
      = [Some (JArr [local_file (JStr (str ''file-0'')) (JStr (str ''image'')),
                     remote_url (str ''https://img.test/cat.png'') (JStr (str ''image''))])]"
proof -
  let ?w = "snd (fst (handleRequest bench_host bench_config (bench_request False) res0 world0))"
  have inputs: "map (\<lambda>b. body_inputs b (str ''file_input'')) (sent ?w)
      = [Some (JArr [local_file (JStr (str ''file-0'')) (JStr (str ''image'')),
                     remote_url (str ''https://img.test/cat.png'') (JStr (str ''image''))])]"
    by (simp add: handleRequest_requests eval_defs request_defs)
  then have "length (sent ?w) = 1"
    by (metis length_map length_Cons list.size(3) One_nat_def)
  then obtain b where b: "sent ?w = [b]"
    by (cases "sent ?w") auto
  with files_empty [of bench_host bench_config "bench_request False" res0]
  have "body_files b = []" by simp
  with b inputs show ?thesis by simp
qed

text \<open>
  C10. The user identifier is \<open>config.USER\<close> when set (a non-empty string), else the
  \<open>user\<close> field of the request body when truthy, else \<open>apiuser\<close>; and within one
  request every upload form and the body of the workflow call carry this identifier as
  their \<open>user\<close>.
\<close>

theorem one_user:
  "(\<forall>f \<in> set (posted (snd (fst (handleRequest h cfg data res world0)))).
      Inr (form_user f) = user_id cfg data)
   \<and> (\<forall>b \<in> set (sent (snd (fst (handleRequest h cfg data res world0)))).
        Inr (body_user b) = user_id cfg data)
   \<and> (\<forall>u. js_get data (str ''user'') = Inr u \<longrightarrow>
        user_id cfg data
          = Inr (if is_set (USER cfg) then JStr (the (USER cfg))
                 else if truthy u then u else JStr (str ''apiuser'')))"
proof -
  obtain res' w' x where run: "handleRequest h cfg data res world0 = ((res', w'), x)"
    by (metis prod.exhaust)
  have "\<forall>u. js_get data (str ''user'') = Inr u \<longrightarrow>
        user_id cfg data
          = Inr (if is_set (USER cfg) then JStr (the (USER cfg))
                 else if truthy u then u else JStr (str ''apiuser''))"
    by (simp add: user_id_def bnd_def)
  with handleRequest_world [OF run] show ?thesis
    by (simp add: run world0_empty)
qed

text \<open>The request of the bench names no user and the configuration neither.\<close>

theorem one_user_witness:
  "map form_user (posted (snd (fst (handleRequest bench_host bench_config (bench_request False)
      res0 world0)))) = [JStr (str ''apiuser'')]
   \<and> map body_user (sent (snd (fst (handleRequest bench_host bench_config (bench_request False)
        res0 world0)))) = [JStr (str ''apiuser'')]"
proof -
  let ?w = "snd (fst (handleRequest bench_host bench_config (bench_request False) res0 world0))"
  have n: "length (posted ?w) = 1" "length (sent ?w) = 1"
    by (simp_all add: handleRequest_requests eval_defs request_defs)
  obtain f where f: "posted ?w = [f]" using n(1) by (cases "posted ?w") auto
  obtain b where b: "sent ?w = [b]" using n(2) by (cases "sent ?w") auto
  have u: "js_get (bench_request False) (str ''user'') = Inr JUndefined"
    "is_set (USER bench_config) = False"
    by (simp_all add: eval_defs)
  from one_user [of bench_host bench_config "bench_request False" res0] f b u
  show ?thesis by auto
qed

section \<open>The images of a request: properties\<close>




















section \<open>The answer to the client: properties\<close>

lemmas answer_defs =
  error_message_def fail_def chat_completion_def usage_of_def blocking_result_def
  blocking_json_def answer_def handleRequest_def

text \<open>
  C5. When the backend answers the workflow call with a status outside 200 to 299, the
  handler, whether the request asked for a stream or not, sets that status, sends the
  backend's body as it is and ends the response: it writes no chat completion document
  and no event-stream frame, and does not set the event-stream content type.
\<close>

theorem upstream_failure:
  assumes "prepare h cfg data w = (Inr (requestBody, stream), w')"
    and "post_run h requestBody = Inr resp"
    and "\<not> reply_ok resp"
  shows "handleRequest h cfg data res w =
           ((res\<lparr>statusCode := reply_status resp,
                  writes := writes res @ [reply_text resp],
                  ended := True\<rparr>,
             w'\<lparr>sent := sent w' @ [requestBody]\<rparr>), None)"
  using assms
  by (simp add: handleRequest_def answer_def bnd_def Let_def res_send_def res_status_def
        res_write_def res_end_def)

text \<open>The backend answers 502 to a request that did not ask for a stream.\<close>

theorem upstream_failure_witness:
  "fst (handleRequest
          (bench_host\<lparr>post_run := \<lambda>body.
             Inr (reply 502 (str ''Bad Gateway'') (str ''text/plain'') [str ''upstream down''])\<rparr>)
          bench_config (bench_request False) res0 world0)
   = (\<lparr>statusCode = 502, contentType = None, writes = [str ''upstream down''], ended = True\<rparr>,
      \<lparr>posted = [\<lparr>form_filename = str ''file.jpeg'', form_contentType = str ''image/jpeg'',
                   form_file = [0, 0, 0], form_user = JStr (str ''apiuser'')\<rparr>],
       sent = [\<lparr>body_inputs =
                  Map.empty(str ''file_input'' \<mapsto>
                     JArr [local_file (JStr (str ''file-0'')) (JStr (str ''image'')),
                           remote_url (str ''https://img.test/cat.png'') (JStr (str ''image''))],
                   str ''text_input'' \<mapsto>
                     JStr (str ''Be brief.'' @ [nl, nl] @ str ''What is this?'')),
                body_response_mode = str ''blocking'',
                body_user = JStr (str ''apiuser''),
                body_files = []\<rparr>]\<rparr>)"
proof -
  let ?h = "bench_host\<lparr>post_run := \<lambda>body.
             Inr (reply 502 (str ''Bad Gateway'') (str ''text/plain'') [str ''upstream down''])\<rparr>"
  let ?body = "\<lparr>body_inputs =
                  Map.empty(str ''file_input'' \<mapsto>
                     JArr [local_file (JStr (str ''file-0'')) (JStr (str ''image'')),
                           remote_url (str ''https://img.test/cat.png'') (JStr (str ''image''))],
                   str ''text_input'' \<mapsto>
                     JStr (str ''Be brief.'' @ [nl, nl] @ str ''What is this?'')),
                body_response_mode = str ''blocking'',
                body_user = JStr (str ''apiuser''),
                body_files = []\<rparr>"
  let ?w = "\<lparr>posted = [\<lparr>form_filename = str ''file.jpeg'', form_contentType = str ''image/jpeg'',
                   form_file = [0, 0, 0], form_user = JStr (str ''apiuser'')\<rparr>],
            sent = []\<rparr>"
  let ?resp = "reply 502 (str ''Bad Gateway'') (str ''text/plain'') [str ''upstream down'']"
  have p: "prepare ?h bench_config (bench_request False) world0 = (Inr (?body, JBool False), ?w)"
    by (simp add: eval_defs request_defs)
  have r: "post_run ?h ?body = Inr ?resp"
    by (simp add: bench_host_def)
  have n: "\<not> reply_ok ?resp"
    by (simp add: reply_ok_def reply_def)
  from upstream_failure [OF p r n, of res0] show ?thesis
    by (simp add: res0_def reply_def reply_text_def buffer_toString_def utf8_start_def
          utf16_def str_def)
qed

text \<open>
  The same answer to a request that asked for a stream: the body goes out as it came,
  not as a \<open>data:\<close> frame.
\<close>

theorem upstream_failure_counterexample:
  "fst (fst (handleRequest
          (bench_host\<lparr>post_run := \<lambda>body.
             Inr (reply 502 (str ''Bad Gateway'') (str ''text/plain'') [str ''upstream down''])\<rparr>)
          bench_config (bench_request True) res0 world0))
   = \<lparr>statusCode = 502, contentType = None, writes = [str ''upstream down''], ended = True\<rparr>
   \<and> map body_response_mode (sent (snd (fst (handleRequest
          (bench_host\<lparr>post_run := \<lambda>body.
             Inr (reply 502 (str ''Bad Gateway'') (str ''text/plain'') [str ''upstream down''])\<rparr>)
          bench_config (bench_request True) res0 world0))))
     = [str ''streaming'']"
  by (simp add: eval_defs request_defs answer_defs)

lemma js_get_truthy: "truthy v \<Longrightarrow> \<exists>x. js_get v k = Inr x"
  by (cases v) simp_all

lemma chat_completion_fields:
  "path (chat_completion h model result usageData)
     [str ''choices'', str ''0'', str ''message'', str ''content''] = Inr result"
  "path (chat_completion h model result (usage_of total_tokens))
     [str ''usage'', str ''total_tokens'']
     = Inr (if truthy total_tokens then total_tokens else JNum 110)"
  by (simp_all add: chat_completion_def usage_of_def bnd_def str_def index_of_def)

text \<open>
  C6. In the blocking path, when the backend's answer has a JSON content type and its
  \<open>data\<close> and \<open>data.outputs\<close> are truthy, the document sent has as
  \<open>choices[0].message.content\<close> the field \<open>OUTPUT_VARIABLE\<close> of the outputs when
  \<open>OUTPUT_VARIABLE\<close> is set and the outputs object itself when it is not, and as
  \<open>usage.total_tokens\<close> the \<open>data.total_tokens\<close> of the answer when that is truthy and
  110 otherwise (absent, null or zero).
\<close>

theorem blocking_answer:
  assumes ok: "reply_ok resp" and blocking: "\<not> truthy stream"
    and ct: "reply_contentType resp = Some ct" "str_includes ct (str ''application/json'')"
    and parse: "json_parse h (reply_text resp) = Some jsonData"
    and d: "js_get jsonData (str ''data'') = Inr d" "truthy d"
    and outputs: "js_get d (str ''outputs'') = Inr outputs" "truthy outputs"
    and tokens: "js_get d (str ''total_tokens'') = Inr total_tokens"
    and model: "js_get data (str ''model'') = Inr model"
  shows "\<exists>doc. answer h cfg data stream res resp
                 = Inr (res_json h (res_setHeader res (str ''application/json'')) doc, None)
           \<and> path doc [str ''choices'', str ''0'', str ''message'', str ''content'']
               = (if is_set (OUTPUT_VARIABLE cfg)
                  then js_get outputs (the (OUTPUT_VARIABLE cfg)) else Inr outputs)
           \<and> path doc [str ''usage'', str ''total_tokens'']
               = Inr (if truthy total_tokens then total_tokens else JNum 110)"
proof -
  have nonempty: "ct \<noteq> []" using ct(2) by (cases ct) (auto simp: str_def)
  have "\<exists>result. select_result cfg outputs = Inr result"
    using js_get_truthy [OF outputs(2), of "the (OUTPUT_VARIABLE cfg)"]
    by (auto simp: select_result_def)
  then obtain result where sel: "select_result cfg outputs = Inr result" by blast
  have res: "blocking_result cfg jsonData = Inr (result, usage_of total_tokens)"
    using d outputs tokens sel by (simp add: blocking_result_def bnd_def)
  have doc: "blocking_json h cfg data (reply_text resp)
      = Inr (chat_completion h model result (usage_of total_tokens))"
    using parse res model by (simp add: blocking_json_def bnd_def)
  have "answer h cfg data stream res resp
      = Inr (res_json h (res_setHeader res (str ''application/json''))
               (chat_completion h model result (usage_of total_tokens)), None)"
    using ok blocking ct nonempty doc by (simp add: answer_def bnd_def)
  moreover have "Inr result = (if is_set (OUTPUT_VARIABLE cfg)
                  then js_get outputs (the (OUTPUT_VARIABLE cfg)) else Inr outputs)"
    using sel by (simp add: select_result_def split: if_splits)
  ultimately show ?thesis
    using chat_completion_fields [of h model result] by auto
qed

text \<open>
  The answer \<open>{"data":{"outputs":{"answer":"hi"},"total_tokens":42}}\<close> with
  \<open>OUTPUT_VARIABLE\<close> set to \<open>answer\<close>: the content is \<open>hi\<close> and the tokens are 42.
\<close>

theorem blocking_answer_witness:
  "\<exists>doc. answer bench_host bench_config (bench_request False) (JBool False) res0
            (reply 200 (str ''OK'') (str ''application/json; charset=utf-8'') [blocking_text 42])
          = Inr (res_json bench_host (res_setHeader res0 (str ''application/json'')) doc, None)
      \<and> path doc [str ''choices'', str ''0'', str ''message'', str ''content'']
          = Inr (JStr (str ''hi''))
      \<and> path doc [str ''usage'', str ''total_tokens''] = Inr (JNum 42)"
proof -
  let ?resp = "reply 200 (str ''OK'') (str ''application/json; charset=utf-8'') [blocking_text 42]"
  let ?d = "JObj [(str ''outputs'', JObj [(str ''answer'', JStr (str ''hi''))]),
                  (str ''total_tokens'', JNum 42)]"
  let ?outputs = "JObj [(str ''answer'', JStr (str ''hi''))]"
  have ok: "reply_ok ?resp" by (simp add: reply_ok_def reply_def)
  have blocking: "\<not> truthy (JBool False)" by simp
  have ct: "reply_contentType ?resp = Some (str ''application/json; charset=utf-8'')"
    by (simp add: reply_def)
  have inc: "str_includes (str ''application/json; charset=utf-8'') (str ''application/json'')"
    by (simp add: str_def startsWith_def)
  have parse: "json_parse bench_host (reply_text ?resp) = Some (blocking_doc 42)"
    by (simp add: reply_text_def eval_defs)
  have d: "js_get (blocking_doc 42) (str ''data'') = Inr ?d" "truthy ?d"
    by (simp_all add: blocking_doc_def str_def)
  have outputs: "js_get ?d (str ''outputs'') = Inr ?outputs" "truthy ?outputs"
    by (simp_all add: str_def)
  have tokens: "js_get ?d (str ''total_tokens'') = Inr (JNum 42)"
    by (simp add: str_def)
  have model: "js_get (bench_request False) (str ''model'') = Inr (JStr (str ''gpt-4o''))"
    by (simp add: bench_request_def str_def)
  have sel: "is_set (OUTPUT_VARIABLE bench_config)"
    "js_get ?outputs (the (OUTPUT_VARIABLE bench_config)) = Inr (JStr (str ''hi''))"
    by (simp_all add: bench_config_def is_set_def str_def)
  have tt: "(if truthy (JNum 42) then JNum 42 else JNum 110) = JNum 42" by simp
  note inst = blocking_answer [OF ok blocking ct inc parse d outputs tokens model,
      of bench_config res0, unfolded sel(2) tt]
  from inst sel(1) show ?thesis by (simp only: if_True simp_thms)
qed

text \<open>
  The same answer with \<open>total_tokens\<close> 0, as for a workflow without a model call: the
  document reports 110 tokens.
\<close>

theorem blocking_answer_counterexample:
  "json_parse bench_host (blocking_text 0) = Some (blocking_doc 0)
   \<and> path (blocking_doc 0) [str ''data'', str ''total_tokens''] = Inr (JNum 0)
   \<and> bnd (blocking_json bench_host bench_config (bench_request False) (blocking_text 0))
        (\<lambda>doc. path doc [str ''usage'', str ''total_tokens'']) = Inr (JNum 110)"
  by (simp add: eval_defs answer_defs)

end
